theory Spec2Isabelle
  imports Main "HOL-Library.Multiset"
begin

section \<open>Go strings and slices as the program uses them\<close>

text \<open>
  A Go string is a sequence of bytes; \<open>string\<close> (a list of 8-bit characters) is the
  same thing. The functions below are the parts of package \<open>strings\<close> the detector
  calls, with Go's argument order.
\<close>

text \<open>\<open>strings.HasPrefix(s, prefix)\<close>.\<close>

fun HasPrefix :: "string \<Rightarrow> string \<Rightarrow> bool" where
  "HasPrefix s [] = True"
| "HasPrefix [] (p # ps) = False"
| "HasPrefix (c # cs) (p # ps) = (c = p \<and> HasPrefix cs ps)"

text \<open>\<open>strings.Contains(s, substr)\<close>: \<open>substr\<close> starts at some position of \<open>s\<close>.\<close>

fun Contains :: "string \<Rightarrow> string \<Rightarrow> bool" where
  "Contains [] substr = (substr = [])"
| "Contains (c # cs) substr = (HasPrefix (c # cs) substr \<or> Contains cs substr)"

text \<open>
  \<open>strings.Replace(s, old, new, 1)\<close>: the first occurrence of \<open>old\<close> is replaced,
  the rest of \<open>s\<close> is kept. The program only calls it with the count 1.
\<close>

fun Replace1 :: "string \<Rightarrow> string \<Rightarrow> string \<Rightarrow> string" where
  "Replace1 [] old new = (if old = [] then new else [])"
| "Replace1 (c # cs) old new =
     (if HasPrefix (c # cs) old then new @ drop (length old) (c # cs)
      else c # Replace1 cs old new)"

text \<open>
  \<open>strings.Split(s, sep)\<close> for a separator of one byte, which is the only way the
  program calls it (\<open>"@"\<close>). \<open>SplitFrom\<close> carries the part read so far; the result
  has one part more than \<open>s\<close> has separators.
\<close>

fun SplitFrom :: "string \<Rightarrow> char \<Rightarrow> string \<Rightarrow> string list" where
  "SplitFrom [] sep cur = [cur]"
| "SplitFrom (c # cs) sep cur =
     (if c = sep then cur # SplitFrom cs sep [] else SplitFrom cs sep (cur @ [c]))"

definition Split :: "string \<Rightarrow> char \<Rightarrow> string list" where
  "Split s sep = SplitFrom s sep []"

text \<open>
  Indexing a slice panics when the index is out of range. The panic is a value of the
  model, so that a function that cannot panic is a theorem and not a convention.
\<close>

datatype panic = IndexOutOfRange

definition index :: "'a list \<Rightarrow> nat \<Rightarrow> panic + 'a" where
  "index xs i = (if i < length xs then Inr (xs ! i) else Inl IndexOutOfRange)"

section \<open>The data model (package models)\<close>

text \<open>\<open>mail.Address\<close> of the standard library; a \<open>*mail.Address\<close> that may be nil
  is an \<open>option\<close>.\<close>

record mail_Address =
  Name :: string
  Address :: string

record Email =
  From :: "mail_Address option"
  ReplyTo :: "mail_Address option"
  ReturnPath :: string
  MessageID :: string
  Subject :: string
  Body :: string
  Headers :: "string \<rightharpoonup> string list"
  RawContent :: string

text \<open>
  \<open>Analyze\<close> is given a pointer to an \<open>Email\<close>; the pointer is taken to be non-nil, and
  a nil \<open>Headers\<close> map reads like the empty map. \<open>Score\<close> and the weights are Go's
  \<open>int\<close>: with the six rules the score stays between 0 and 27 (\<open>Analyze_score_range\<close>
  below), so no addition wraps and \<open>int\<close> is exact.
\<close>

record AnalysisResult =
  IsSpoofed :: bool
  Reasons :: "string list"
  Score :: int

text \<open>\<open>GetDomain\<close>: the part after the single \<open>@\<close>, the empty string otherwise.\<close>

definition GetDomain :: "mail_Address option \<Rightarrow> panic + string" where
  "GetDomain address =
     (case address of
        None \<Rightarrow> Inr []
      | Some a \<Rightarrow>
          (let parts = Split (Address a) CHR ''@''
           in if length parts \<noteq> 2 then Inr [] else index parts 1))"

text \<open>Reading a key that a Go map lacks gives the zero value: a nil slice, of length 0.\<close>

definition GetAllHeaderValues :: "Email \<Rightarrow> string \<Rightarrow> string list" where
  "GetAllHeaderValues e name = (case Headers e name of None \<Rightarrow> [] | Some values \<Rightarrow> values)"

definition HasHeader :: "Email \<Rightarrow> string \<Rightarrow> bool" where
  "HasHeader e name = (case Headers e name of None \<Rightarrow> False | Some values \<Rightarrow> True)"

definition GetHeaderValue :: "Email \<Rightarrow> string \<Rightarrow> panic + string" where
  "GetHeaderValue e name =
     (case Headers e name of
        None \<Rightarrow> Inr []
      | Some values \<Rightarrow> if length values = 0 then Inr [] else index values 0)"

section \<open>What the program reads from outside\<close>

text \<open>
  \<open>LookupTXT\<close> is \<open>net.LookupTXT\<close>: the TXT records of a name, or \<open>None\<close> when the
  lookup returns an error. One analysis is assumed to see one state of the DNS, so
  the resolver is a function of the name.
  \<open>ToLower\<close> is \<open>strings.ToLower\<close>, whose Unicode case mapping is left open: the
  theorems hold for every such function.
  \<open>rangeOrder\<close> is the order in which \<open>range\<close> visits the keys of the map of
  commonly spoofed domains; Go does not fix it.
\<close>

record runtime =
  LookupTXT :: "string \<Rightarrow> string list option"
  ToLower :: "string \<Rightarrow> string"
  rangeOrder :: "string list"

section \<open>The lookalike test (rules file)\<close>

definition isSimilarDomain :: "string \<Rightarrow> string \<Rightarrow> bool" where
  "isSimilarDomain domain1 domain2 =
     (if domain1 \<noteq> domain2 \<and> Contains domain1 (Replace1 domain2 ''.'' '''') then True
      else
        (let typos =
               [Replace1 domain2 ''.'' ''-'',
                Replace1 domain2 ''.'' '''',
                ''mail-'' @ domain2,
                domain2 @ ''-secure'',
                Replace1 domain2 ''m'' ''rn'']
         in domain1 \<in> set typos))"

section \<open>The structural rules (rules file)\<close>

text \<open>
  A rule's check reads the email and, for the missing-SPF rule, the DNS; a check may
  panic like any Go function, hence the result type. The field \<open>Name\<close> of the
  source is \<open>RuleName\<close> here, as \<open>mail.Address\<close> has a field \<open>Name\<close> too.
\<close>

record Rule =
  RuleName :: string
  Description :: string
  Weight :: int
  CheckFunc :: "runtime \<Rightarrow> Email \<Rightarrow> panic + (bool \<times> string)"

definition checkFromReplyToDomainMismatch :: "runtime \<Rightarrow> Email \<Rightarrow> panic + (bool \<times> string)" where
  "checkFromReplyToDomainMismatch env email =
     (if From email = None \<or> ReplyTo email = None then Inr (False, [])
      else
        (case GetDomain (From email) of
           Inl p \<Rightarrow> Inl p
         | Inr fromDomain \<Rightarrow>
             (case GetDomain (ReplyTo email) of
                Inl p \<Rightarrow> Inl p
              | Inr replyToDomain \<Rightarrow>
                  if fromDomain \<noteq> [] \<and> replyToDomain \<noteq> [] \<and> fromDomain \<noteq> replyToDomain
                  then Inr (True, ''From domain ('' @ fromDomain
                                   @ '') doesn't match Reply-To domain ('' @ replyToDomain @ '')'')
                  else Inr (False, []))))"

definition checkFromReturnPathDomainMismatch :: "runtime \<Rightarrow> Email \<Rightarrow> panic + (bool \<times> string)" where
  "checkFromReturnPathDomainMismatch env email =
     (if From email = None \<or> ReturnPath email = [] then Inr (False, [])
      else
        (case GetDomain (From email) of
           Inl p \<Rightarrow> Inl p
         | Inr fromDomain \<Rightarrow>
             (let returnPathParts = Split (ReturnPath email) CHR ''@''
              in if length returnPathParts \<noteq> 2 then Inr (False, [])
                 else
                   (case index returnPathParts 1 of
                      Inl p \<Rightarrow> Inl p
                    | Inr returnPathDomain \<Rightarrow>
                        if fromDomain \<noteq> [] \<and> returnPathDomain \<noteq> []
                           \<and> fromDomain \<noteq> returnPathDomain
                        then Inr (True, ''From domain ('' @ fromDomain
                                         @ '') doesn't match Return-Path domain (''
                                         @ returnPathDomain @ '')'')
                        else Inr (False, [])))))"

text \<open>The loop of \<open>checkMissingSPF\<close> over the TXT records: is one of them an SPF record?\<close>

fun anySPF :: "string list \<Rightarrow> bool" where
  "anySPF [] = False"
| "anySPF (record # rest) = (if HasPrefix record ''v=spf1'' then True else anySPF rest)"

definition checkMissingSPF :: "runtime \<Rightarrow> Email \<Rightarrow> panic + (bool \<times> string)" where
  "checkMissingSPF env email =
     (if From email = None then Inr (False, [])
      else
        (case GetDomain (From email) of
           Inl p \<Rightarrow> Inl p
         | Inr fromDomain \<Rightarrow>
             if fromDomain = [] then Inr (False, [])
             else
               (case LookupTXT env fromDomain of
                  None \<Rightarrow> Inr (False, [])
                | Some txtRecords \<Rightarrow>
                    if anySPF txtRecords then Inr (False, [])
                    else Inr (True, ''Domain '' @ fromDomain @ '' doesn't have an SPF record''))))"

text \<open>The keys of the map \<open>commonDomains\<close>, as the source lists them.\<close>

definition commonDomains :: "string list" where
  "commonDomains =
     [''gmail.com'', ''yahoo.com'', ''outlook.com'', ''hotmail.com'', ''microsoft.com'',
      ''apple.com'', ''amazon.com'', ''facebook.com'', ''paypal.com'', ''wellsfargo.com'',
      ''bankofamerica.com'', ''chase.com'']"

text \<open>The loop over the keys, in the order the runtime visits them.\<close>

fun similarLoop :: "string \<Rightarrow> string list \<Rightarrow> bool \<times> string" where
  "similarLoop fromDomain [] = (False, [])"
| "similarLoop fromDomain (domain # rest) =
     (if fromDomain \<noteq> domain \<and> isSimilarDomain fromDomain domain
      then (True, ''From domain ('' @ fromDomain @ '') looks similar to '' @ domain)
      else similarLoop fromDomain rest)"

definition checkSuspiciousFromDomain :: "runtime \<Rightarrow> Email \<Rightarrow> panic + (bool \<times> string)" where
  "checkSuspiciousFromDomain env email =
     (if From email = None then Inr (False, [])
      else
        (case GetDomain (From email) of
           Inl p \<Rightarrow> Inl p
         | Inr fromDomain \<Rightarrow>
             if fromDomain = [] then Inr (False, [])
             else Inr (similarLoop fromDomain (rangeOrder env))))"

definition checkMultipleFromHeaders :: "runtime \<Rightarrow> Email \<Rightarrow> panic + (bool \<times> string)" where
  "checkMultipleFromHeaders env email =
     (let fromHeaders = GetAllHeaderValues email ''From''
      in if length fromHeaders > 1 then Inr (True, ''Email contains multiple From headers'')
         else Inr (False, []))"

definition suspiciousPatterns :: "string list" where
  "suspiciousPatterns =
     [''unknown'', ''localhost'', ''127.0.0.1'', ''192.168.'', ''10.0.'', ''172.16.'']"

text \<open>The inner loop: the first pattern the (lowered) header contains.\<close>

fun firstPattern :: "string \<Rightarrow> string list \<Rightarrow> string option" where
  "firstPattern header [] = None"
| "firstPattern header (pattern # rest) =
     (if Contains header pattern then Some pattern else firstPattern header rest)"

text \<open>The outer loop over the Received headers.\<close>

fun receivedLoop :: "runtime \<Rightarrow> string list \<Rightarrow> bool \<times> string" where
  "receivedLoop env [] = (False, [])"
| "receivedLoop env (header # rest) =
     (case firstPattern (ToLower env header) suspiciousPatterns of
        Some pattern \<Rightarrow> (True, ''Suspicious pattern found in Received headers: '' @ pattern)
      | None \<Rightarrow> receivedLoop env rest)"

definition checkSuspiciousReceivedChain :: "runtime \<Rightarrow> Email \<Rightarrow> panic + (bool \<times> string)" where
  "checkSuspiciousReceivedChain env email =
     (let receivedHeaders = GetAllHeaderValues email ''Received''
      in if length receivedHeaders = 0
         then Inr (True, ''Email doesn't have any Received headers'')
         else Inr (receivedLoop env receivedHeaders))"

definition Rules :: "Rule list" where
  "Rules =
     [\<lparr>RuleName = ''inconsistent_from_reply_to'',
       Description = ''From and Reply-To domains don't match'',
       Weight = 3, CheckFunc = checkFromReplyToDomainMismatch\<rparr>,
      \<lparr>RuleName = ''inconsistent_from_return_path'',
       Description = ''From and Return-Path domains don't match'',
       Weight = 3, CheckFunc = checkFromReturnPathDomainMismatch\<rparr>,
      \<lparr>RuleName = ''missing_spf'',
       Description = ''Domain doesn't have SPF record'',
       Weight = 2, CheckFunc = checkMissingSPF\<rparr>,
      \<lparr>RuleName = ''suspicious_from_domain'',
       Description = ''From domain is suspicious (lookalike domain)'',
       Weight = 4, CheckFunc = checkSuspiciousFromDomain\<rparr>,
      \<lparr>RuleName = ''multiple_from_headers'',
       Description = ''Email contains multiple From headers'',
       Weight = 5, CheckFunc = checkMultipleFromHeaders\<rparr>,
      \<lparr>RuleName = ''suspicious_received_chain'',
       Description = ''Suspicious Received headers chain'',
       Weight = 2, CheckFunc = checkSuspiciousReceivedChain\<rparr>]"

section \<open>The detector (package detector)\<close>

record SpoofDetector =
  rules :: "Rule list"

definition NewSpoofDetector :: SpoofDetector where
  "NewSpoofDetector = \<lparr>rules = Rules\<rparr>"

text \<open>
  The loop that selects a record in \<open>checkSPF\<close> and \<open>checkDMARC\<close>: the first
  record with the prefix, the empty string when there is none.
\<close>

fun firstWithPrefix :: "string list \<Rightarrow> string \<Rightarrow> string" where
  "firstWithPrefix [] pre = []"
| "firstWithPrefix (record # rest) pre =
     (if HasPrefix record pre then record else firstWithPrefix rest pre)"

text \<open>The calls of \<open>log.Printf\<close> write to the log only and are left out.\<close>

definition checkSPF :: "runtime \<Rightarrow> Email \<Rightarrow> string \<Rightarrow> string" where
  "checkSPF env email domain =
     (case LookupTXT env domain of
        None \<Rightarrow> ''SPF lookup failed for domain '' @ domain
      | Some txtRecords \<Rightarrow>
          (let spfRecord = firstWithPrefix txtRecords ''v=spf1''
           in if spfRecord = [] then ''Domain '' @ domain @ '' doesn't have an SPF record''
              else if Contains spfRecord ''-all'' then []
              else if Contains spfRecord ''~all'' then []
              else if Contains spfRecord ''?all''
                then ''Domain '' @ domain @ '' has a neutral SPF policy''
              else ''Domain '' @ domain @ '' has a permissive SPF policy''))"

definition checkDKIM :: "Email \<Rightarrow> string \<Rightarrow> panic + string" where
  "checkDKIM email domain =
     (if \<not> HasHeader email ''DKIM-Signature'' then Inr ''Email doesn't have a DKIM signature''
      else
        (case GetHeaderValue email ''DKIM-Signature'' of
           Inl p \<Rightarrow> Inl p
         | Inr dkimSignature \<Rightarrow>
             if \<not> Contains dkimSignature domain
             then Inr ''DKIM signature domain doesn't match From domain''
             else Inr []))"

definition checkDMARC :: "runtime \<Rightarrow> Email \<Rightarrow> string \<Rightarrow> string" where
  "checkDMARC env email domain =
     (let dmarcDomain = ''_dmarc.'' @ domain
      in case LookupTXT env dmarcDomain of
           None \<Rightarrow> ''DMARC lookup failed for domain '' @ domain
         | Some txtRecords \<Rightarrow>
             (let dmarcRecord = firstWithPrefix txtRecords ''v=DMARC1''
              in if dmarcRecord = [] then ''Domain '' @ domain @ '' doesn't have a DMARC record''
                 else if Contains dmarcRecord ''p=reject'' then []
                 else if Contains dmarcRecord ''p=quarantine'' then []
                 else if Contains dmarcRecord ''p=none''
                   then ''Domain '' @ domain @ '' has a monitoring-only DMARC policy''
                 else ''Domain '' @ domain @ '' has an unknown DMARC policy''))"

text \<open>One more finding: its weight and its reason, when it is not empty.\<close>

definition addFinding :: "int \<Rightarrow> string \<Rightarrow> AnalysisResult \<Rightarrow> AnalysisResult" where
  "addFinding w finding result =
     (if finding \<noteq> []
      then result\<lparr>Score := Score result + w, Reasons := Reasons result @ [finding]\<rparr>
      else result)"

text \<open>The loop of \<open>Analyze\<close> over the rules.\<close>

fun applyRules :: "runtime \<Rightarrow> Email \<Rightarrow> Rule list \<Rightarrow> AnalysisResult \<Rightarrow> panic + AnalysisResult" where
  "applyRules env email [] result = Inr result"
| "applyRules env email (rule # rest) result =
     (case CheckFunc rule env email of
        Inl p \<Rightarrow> Inl p
      | Inr (triggered, reason) \<Rightarrow>
          applyRules env email rest
            (if triggered
             then result\<lparr>Score := Score result + Weight rule,
                         Reasons := Reasons result @ [reason]\<rparr>
             else result))"

text \<open>The SPF, DKIM and DMARC block of \<open>Analyze\<close>.\<close>

definition applyAuth :: "runtime \<Rightarrow> Email \<Rightarrow> AnalysisResult \<Rightarrow> panic + AnalysisResult" where
  "applyAuth env email result =
     (if From email \<noteq> None
      then
        (case GetDomain (From email) of
           Inl p \<Rightarrow> Inl p
         | Inr fromDomain \<Rightarrow>
             if fromDomain \<noteq> []
             then
               (let spfResult = checkSPF env email fromDomain;
                    result1 = addFinding 3 spfResult result
                in case checkDKIM email fromDomain of
                     Inl p \<Rightarrow> Inl p
                   | Inr dkimResult \<Rightarrow>
                       (let result2 = addFinding 3 dkimResult result1;
                            dmarcResult = checkDMARC env email fromDomain
                        in Inr (addFinding 2 dmarcResult result2)))
             else Inr result)
      else Inr result)"

definition Analyze :: "SpoofDetector \<Rightarrow> runtime \<Rightarrow> Email \<Rightarrow> panic + AnalysisResult" where
  "Analyze d env email =
     (case applyRules env email (rules d) \<lparr>IsSpoofed = False, Reasons = [], Score = 0\<rparr> of
        Inl p \<Rightarrow> Inl p
      | Inr result \<Rightarrow>
          (case applyAuth env email result of
             Inl p \<Rightarrow> Inl p
           | Inr result' \<Rightarrow>
               Inr (if Score result' \<ge> 5 then result'\<lparr>IsSpoofed := True\<rparr> else result')))"

section \<open>Notions used to state the results\<close>

text \<open>
  What a rule's outcome \<open>(triggered, reason)\<close> and an authenticity finding add to the
  result: these four only abbreviate the statements below, the program is above.
\<close>

definition triggeredWeight :: "int \<Rightarrow> bool \<times> string \<Rightarrow> int" where
  "triggeredWeight w c = (if fst c then w else 0)"

definition triggeredReason :: "bool \<times> string \<Rightarrow> string list" where
  "triggeredReason c = (if fst c then [snd c] else [])"

definition findingWeight :: "int \<Rightarrow> string \<Rightarrow> int" where
  "findingWeight w finding = (if finding = [] then 0 else w)"

definition findingReason :: "string \<Rightarrow> string list" where
  "findingReason finding = (if finding = [] then [] else [finding])"

section \<open>Concrete runtimes and emails\<close>

text \<open>
  The inputs at which the results below are evaluated. \<open>asciiLower\<close> is
  \<open>strings.ToLower\<close> on ASCII text.
\<close>

definition asciiLower :: "string \<Rightarrow> string" where
  "asciiLower s =
     map (\<lambda>c. case map_of (zip ''ABCDEFGHIJKLMNOPQRSTUVWXYZ'' ''abcdefghijklmnopqrstuvwxyz'') c of
                 None \<Rightarrow> c | Some l \<Rightarrow> l) s"

definition exampleDNS :: "string \<Rightarrow> string list option" where
  "exampleDNS name =
     (if name = ''example.com''
        then Some [''google-site-verification=abc'', ''v=spf1 mx ~all -all'']
      else if name = ''_dmarc.example.com'' then Some [''v=DMARC1; p=reject'']
      else if name = ''mail-gmail.com'' then Some [''v=spf1 -all'']
      else if name = ''_dmarc.mail-gmail.com'' then Some [''v=DMARC1; p=reject'']
      else if name = ''two-records.test'' then Some [''v=spf1 +all'', ''v=spf1 -all'']
      else if name = ''_dmarc.two-records.test'' then Some [''v=DMARC1; p=reject'']
      else if name = ''soft.test'' then Some [''v=spf1 a ~all'']
      else if name = ''neutral.test'' then Some [''v=spf1 a ?all'']
      else if name = ''open.test'' then Some [''v=spf1 +all'']
      else if name = ''paypal.com-secure'' then Some [''unrelated=1'']
      else None)"

definition exampleRuntime :: runtime where
  "exampleRuntime = \<lparr>LookupTXT = exampleDNS, ToLower = asciiLower, rangeOrder = commonDomains\<rparr>"

text \<open>Every domain agrees and every check passes.\<close>

definition cleanEmail :: Email where
  "cleanEmail =
     \<lparr>From = Some \<lparr>Name = ''Alice'', Address = ''alice@example.com''\<rparr>,
      ReplyTo = Some \<lparr>Name = ''Alice'', Address = ''alice@example.com''\<rparr>,
      ReturnPath = ''bounce@example.com'',
      MessageID = ''<1@example.com>'', Subject = ''Hello'', Body = ''Hi'',
      Headers = [''From'' \<mapsto> [''Alice <alice@example.com>''],
                 ''Received'' \<mapsto> [''from MX.example.com by mx.example.org''],
                 ''DKIM-Signature'' \<mapsto> [''v=1; d=example.com; s=sel'']],
      RawContent = []\<rparr>"

text \<open>The same email sent from the domain \<open>mail-gmail.com\<close>.\<close>

definition lookalikeEmail :: Email where
  "lookalikeEmail =
     \<lparr>From = Some \<lparr>Name = ''Alice'', Address = ''alice@mail-gmail.com''\<rparr>,
      ReplyTo = Some \<lparr>Name = ''Alice'', Address = ''alice@mail-gmail.com''\<rparr>,
      ReturnPath = ''bounce@mail-gmail.com'',
      MessageID = ''<2@mail-gmail.com>'', Subject = ''Hello'', Body = ''Hi'',
      Headers = [''From'' \<mapsto> [''Alice <alice@mail-gmail.com>''],
                 ''Received'' \<mapsto> [''from mx.mail-gmail.com by mx.example.org''],
                 ''DKIM-Signature'' \<mapsto> [''v=1; d=mail-gmail.com; s=sel'']],
      RawContent = []\<rparr>"

text \<open>The same email from a domain whose second SPF record is the strict one.\<close>

definition twoRecordsEmail :: Email where
  "twoRecordsEmail =
     \<lparr>From = Some \<lparr>Name = ''Alice'', Address = ''alice@two-records.test''\<rparr>,
      ReplyTo = Some \<lparr>Name = ''Alice'', Address = ''alice@two-records.test''\<rparr>,
      ReturnPath = ''bounce@two-records.test'',
      MessageID = ''<3@two-records.test>'', Subject = ''Hello'', Body = ''Hi'',
      Headers = [''From'' \<mapsto> [''Alice <alice@two-records.test>''],
                 ''Received'' \<mapsto> [''from mx.two-records.test by mx.example.org''],
                 ''DKIM-Signature'' \<mapsto> [''v=1; d=two-records.test; s=sel'']],
      RawContent = []\<rparr>"

text \<open>No usable From address, two From headers.\<close>

definition twoFromEmail :: Email where
  "twoFromEmail =
     \<lparr>From = None, ReplyTo = None, ReturnPath = [],
      MessageID = [], Subject = [], Body = [],
      Headers = [''From'' \<mapsto> [''not an address'', ''neither, this''],
                 ''Received'' \<mapsto> [''from mx.example.com by mx.example.org'']],
      RawContent = []\<rparr>"

text \<open>A From address without \<open>@\<close>, two From headers and no Received header.\<close>

definition domainlessEmail :: Email where
  "domainlessEmail =
     \<lparr>From = Some \<lparr>Name = ''Nobody'', Address = ''nobody''\<rparr>,
      ReplyTo = Some \<lparr>Name = ''Somebody'', Address = ''somebody@example.com''\<rparr>,
      ReturnPath = ''bounce@example.com'',
      MessageID = [], Subject = [], Body = [],
      Headers = [''From'' \<mapsto> [''Nobody <nobody>'', ''Nobody <nobody>'']],
      RawContent = []\<rparr>"

text \<open>Two DKIM signatures, of which only the second names the From domain.\<close>

definition laterSignatureEmail :: Email where
  "laterSignatureEmail =
     \<lparr>From = Some \<lparr>Name = ''Alice'', Address = ''alice@example.com''\<rparr>,
      ReplyTo = Some \<lparr>Name = ''Alice'', Address = ''alice@example.com''\<rparr>,
      ReturnPath = ''bounce@example.com'',
      MessageID = ''<4@example.com>'', Subject = ''Hello'', Body = ''Hi'',
      Headers = [''From'' \<mapsto> [''Alice <alice@example.com>''],
                 ''Received'' \<mapsto> [''from mx.example.com by mx.example.org''],
                 ''DKIM-Signature'' \<mapsto> [''v=1; d=relay.test; s=a'', ''v=1; d=example.com; s=b'']],
      RawContent = []\<rparr>"

text \<open>An email from a domain whose TXT lookup fails.\<close>

definition failedLookupEmail :: Email where
  "failedLookupEmail =
     \<lparr>From = Some \<lparr>Name = ''Bob'', Address = ''bob@nodns.test''\<rparr>,
      ReplyTo = None, ReturnPath = [],
      MessageID = ''<5@nodns.test>'', Subject = ''Hello'', Body = ''Hi'',
      Headers = [''From'' \<mapsto> [''Bob <bob@nodns.test>''],
                 ''Received'' \<mapsto> [''from mx.nodns.test by mx.example.org'']],
      RawContent = []\<rparr>"

text \<open>An email that triggers every rule and every authenticity finding.\<close>

definition noisyEmail :: Email where
  "noisyEmail =
     \<lparr>From = Some \<lparr>Name = ''PayPal'', Address = ''service@paypal.com-secure''\<rparr>,
      ReplyTo = Some \<lparr>Name = ''PayPal'', Address = ''collect@evil.test''\<rparr>,
      ReturnPath = ''bounce@bulk.test'',
      MessageID = ''<6@evil.test>'', Subject = ''Urgent'', Body = ''Click'',
      Headers = [''From'' \<mapsto> [''PayPal <service@paypal.com-secure>'', ''PayPal <service@paypal.com>'']],
      RawContent = []\<rparr>"

text \<open>The clean email without its Received header.\<close>

definition noReceivedEmail :: Email where
  "noReceivedEmail =
     \<lparr>From = Some \<lparr>Name = ''Alice'', Address = ''alice@example.com''\<rparr>,
      ReplyTo = Some \<lparr>Name = ''Alice'', Address = ''alice@example.com''\<rparr>,
      ReturnPath = ''bounce@example.com'',
      MessageID = ''<7@example.com>'', Subject = ''Hello'', Body = ''Hi'',
      Headers = [''From'' \<mapsto> [''Alice <alice@example.com>''],
                 ''DKIM-Signature'' \<mapsto> [''v=1; d=example.com; s=sel'']],
      RawContent = []\<rparr>"

section \<open>Facts about the string and slice functions\<close>

lemma SplitFrom_length: "length (SplitFrom s sep cur) = Suc (count_list s sep)"
  by (induction s arbitrary: cur) simp_all

lemma Split_length: "length (Split s sep) = Suc (count_list s sep)"
  by (simp add: Split_def SplitFrom_length)

lemma index_in_range: "i < length xs \<Longrightarrow> index xs i = Inr (xs ! i)"
  by (simp add: index_def)

lemma anySPF_iff: "anySPF records \<longleftrightarrow> (\<exists>r \<in> set records. HasPrefix r ''v=spf1'')"
  by (induction records) auto

lemma firstWithPrefix_selects:
  assumes "\<forall>r \<in> set before. \<not> HasPrefix r pre" and "HasPrefix record pre"
  shows "firstWithPrefix (before @ record # after) pre = record"
  using assms by (induction before) simp_all

lemma HasPrefix_nonempty: "HasPrefix s pre \<Longrightarrow> pre \<noteq> [] \<Longrightarrow> s \<noteq> []"
  by (cases s; cases pre) simp_all

section \<open>No function of the program panics\<close>

lemma GetDomain_total: "\<exists>s. GetDomain address = Inr s"
proof (cases address)
  case None
  then show ?thesis by (simp add: GetDomain_def)
next
  case (Some a)
  show ?thesis
  proof (cases "length (Split (Address a) CHR ''@'') = 2")
    case True
    then have "index (Split (Address a) CHR ''@'') 1 = Inr (Split (Address a) CHR ''@'' ! 1)"
      by (simp add: index_in_range)
    with Some True show ?thesis by (simp add: GetDomain_def)
  next
    case False
    with Some show ?thesis by (simp add: GetDomain_def)
  qed
qed

lemma GetHeaderValue_total: "\<exists>s. GetHeaderValue e name = Inr s"
  by (cases "Headers e name") (simp_all add: GetHeaderValue_def index_def)

lemma GetHeaderValue_first:
  "Headers e name = Some (v # vs) \<Longrightarrow> GetHeaderValue e name = Inr v"
  by (simp add: GetHeaderValue_def index_def)

lemma checkDKIM_total: "\<exists>k. checkDKIM e domain = Inr k"
proof -
  obtain s where "GetHeaderValue e ''DKIM-Signature'' = Inr s"
    using GetHeaderValue_total by blast
  then show ?thesis by (simp add: checkDKIM_def)
qed

lemma checkFromReplyToDomainMismatch_total: "\<exists>c. checkFromReplyToDomainMismatch env e = Inr c"
proof -
  obtain s t where "GetDomain (From e) = Inr s" "GetDomain (ReplyTo e) = Inr t"
    using GetDomain_total by blast
  then show ?thesis by (auto simp add: checkFromReplyToDomainMismatch_def)
qed

lemma checkFromReturnPathDomainMismatch_total:
  "\<exists>c. checkFromReturnPathDomainMismatch env e = Inr c"
proof -
  obtain s where s: "GetDomain (From e) = Inr s"
    using GetDomain_total by blast
  show ?thesis
  proof (cases "length (Split (ReturnPath e) CHR ''@'') = 2")
    case True
    then have "index (Split (ReturnPath e) CHR ''@'') 1 = Inr (Split (ReturnPath e) CHR ''@'' ! 1)"
      by (simp add: index_in_range)
    with s True show ?thesis by (auto simp add: checkFromReturnPathDomainMismatch_def Let_def)
  next
    case False
    with s show ?thesis by (auto simp add: checkFromReturnPathDomainMismatch_def)
  qed
qed

lemma checkMissingSPF_total: "\<exists>c. checkMissingSPF env e = Inr c"
proof -
  obtain s where "GetDomain (From e) = Inr s"
    using GetDomain_total by blast
  then show ?thesis by (auto simp add: checkMissingSPF_def split: option.split)
qed

lemma checkSuspiciousFromDomain_total: "\<exists>c. checkSuspiciousFromDomain env e = Inr c"
proof -
  obtain s where "GetDomain (From e) = Inr s"
    using GetDomain_total by blast
  then show ?thesis by (auto simp add: checkSuspiciousFromDomain_def)
qed

lemma checkMultipleFromHeaders_total: "\<exists>c. checkMultipleFromHeaders env e = Inr c"
  by (auto simp add: checkMultipleFromHeaders_def Let_def)

lemma checkSuspiciousReceivedChain_total: "\<exists>c. checkSuspiciousReceivedChain env e = Inr c"
  by (auto simp add: checkSuspiciousReceivedChain_def Let_def)

section \<open>What Analyze computes with the six rules\<close>

lemma addFinding_eq:
  "addFinding w finding r =
     r\<lparr>Score := Score r + findingWeight w finding, Reasons := Reasons r @ findingReason finding\<rparr>"
  by (simp add: addFinding_def findingWeight_def findingReason_def)

lemma applyRules_step:
  assumes "f env e = Inr c"
  shows "applyRules env e (\<lparr>RuleName = n, Description = d, Weight = w, CheckFunc = f\<rparr> # rest) r =
           applyRules env e rest
             (r\<lparr>Score := Score r + triggeredWeight w c,
                Reasons := Reasons r @ triggeredReason c\<rparr>)"
  using assms by (cases c) (simp add: triggeredWeight_def triggeredReason_def)

lemma applyRules_Rules:
  assumes "checkFromReplyToDomainMismatch env e = Inr c1"
    and "checkFromReturnPathDomainMismatch env e = Inr c2"
    and "checkMissingSPF env e = Inr c3"
    and "checkSuspiciousFromDomain env e = Inr c4"
    and "checkMultipleFromHeaders env e = Inr c5"
    and "checkSuspiciousReceivedChain env e = Inr c6"
  shows "applyRules env e Rules r =
           Inr (r\<lparr>Score := Score r + (triggeredWeight 3 c1 + triggeredWeight 3 c2
                              + triggeredWeight 2 c3 + triggeredWeight 4 c4
                              + triggeredWeight 5 c5 + triggeredWeight 2 c6),
                    Reasons := Reasons r @ (triggeredReason c1 @ triggeredReason c2
                              @ triggeredReason c3 @ triggeredReason c4
                              @ triggeredReason c5 @ triggeredReason c6)\<rparr>)"
  unfolding Rules_def
  by (simp add: applyRules_step [of checkFromReplyToDomainMismatch env e c1, OF assms(1)] applyRules_step [of checkFromReturnPathDomainMismatch env e c2, OF assms(2)]
      applyRules_step [of checkMissingSPF env e c3, OF assms(3)] applyRules_step [of checkSuspiciousFromDomain env e c4, OF assms(4)]
      applyRules_step [of checkMultipleFromHeaders env e c5, OF assms(5)] applyRules_step [of checkSuspiciousReceivedChain env e c6, OF assms(6)] add.assoc
      del: applyRules.simps(2))

lemma applyAuth_unresolvable:
  assumes "From e = None \<or> GetDomain (From e) = Inr []"
  shows "applyAuth env e r = Inr r"
  using assms by (auto simp add: applyAuth_def)

lemma applyAuth_resolvable:
  assumes "From e = Some a" and "GetDomain (Some a) = Inr D" and "D \<noteq> []"
    and "checkDKIM e D = Inr k"
  shows "applyAuth env e r =
           Inr (r\<lparr>Score := Score r + (findingWeight 3 (checkSPF env e D) + findingWeight 3 k
                              + findingWeight 2 (checkDMARC env e D)),
                    Reasons := Reasons r @ (findingReason (checkSPF env e D) @ findingReason k
                              @ findingReason (checkDMARC env e D))\<rparr>)"
  using assms by (simp add: applyAuth_def Let_def addFinding_eq add.assoc)

lemma Analyze_unresolvable:
  assumes "checkFromReplyToDomainMismatch env e = Inr c1"
    and "checkFromReturnPathDomainMismatch env e = Inr c2"
    and "checkMissingSPF env e = Inr c3"
    and "checkSuspiciousFromDomain env e = Inr c4"
    and "checkMultipleFromHeaders env e = Inr c5"
    and "checkSuspiciousReceivedChain env e = Inr c6"
    and "From e = None \<or> GetDomain (From e) = Inr []"
  shows "Analyze NewSpoofDetector env e =
           Inr \<lparr>IsSpoofed = (5 \<le> triggeredWeight 3 c1 + triggeredWeight 3 c2
                              + triggeredWeight 2 c3 + triggeredWeight 4 c4
                              + triggeredWeight 5 c5 + triggeredWeight 2 c6),
                Reasons = triggeredReason c1 @ triggeredReason c2
                              @ triggeredReason c3 @ triggeredReason c4
                              @ triggeredReason c5 @ triggeredReason c6,
                Score = triggeredWeight 3 c1 + triggeredWeight 3 c2
                              + triggeredWeight 2 c3 + triggeredWeight 4 c4
                              + triggeredWeight 5 c5 + triggeredWeight 2 c6\<rparr>"
  by (simp add: Analyze_def NewSpoofDetector_def applyRules_Rules [OF assms(1-6)]
      applyAuth_unresolvable [OF assms(7)])

lemma Analyze_resolvable:
  assumes "checkFromReplyToDomainMismatch env e = Inr c1"
    and "checkFromReturnPathDomainMismatch env e = Inr c2"
    and "checkMissingSPF env e = Inr c3"
    and "checkSuspiciousFromDomain env e = Inr c4"
    and "checkMultipleFromHeaders env e = Inr c5"
    and "checkSuspiciousReceivedChain env e = Inr c6"
    and "From e = Some a" and "GetDomain (Some a) = Inr D" and "D \<noteq> []"
    and "checkDKIM e D = Inr k"
  shows "Analyze NewSpoofDetector env e =
           Inr \<lparr>IsSpoofed = (5 \<le> triggeredWeight 3 c1 + triggeredWeight 3 c2
                              + triggeredWeight 2 c3 + triggeredWeight 4 c4
                              + triggeredWeight 5 c5 + triggeredWeight 2 c6
                              + (findingWeight 3 (checkSPF env e D) + findingWeight 3 k
                                 + findingWeight 2 (checkDMARC env e D))),
                Reasons = (triggeredReason c1 @ triggeredReason c2
                              @ triggeredReason c3 @ triggeredReason c4
                              @ triggeredReason c5 @ triggeredReason c6)
                          @ (findingReason (checkSPF env e D) @ findingReason k
                              @ findingReason (checkDMARC env e D)),
                Score = triggeredWeight 3 c1 + triggeredWeight 3 c2
                              + triggeredWeight 2 c3 + triggeredWeight 4 c4
                              + triggeredWeight 5 c5 + triggeredWeight 2 c6
                              + (findingWeight 3 (checkSPF env e D) + findingWeight 3 k
                                 + findingWeight 2 (checkDMARC env e D))\<rparr>"
  by (simp add: Analyze_def NewSpoofDetector_def applyRules_Rules [OF assms(1-6)]
      applyAuth_resolvable [OF assms(7-10)])

lemma resolvable_cases:
  "(From e = None \<or> GetDomain (From e) = Inr [])
   \<or> (\<exists>a D k. From e = Some a \<and> GetDomain (Some a) = Inr D \<and> D \<noteq> [] \<and> checkDKIM e D = Inr k)"
proof (cases "From e")
  case None
  then show ?thesis by simp
next
  case (Some a)
  obtain D where D: "GetDomain (Some a) = Inr D"
    using GetDomain_total by blast
  obtain k where "checkDKIM e D = Inr k"
    using checkDKIM_total by blast
  with Some D show ?thesis by (cases "D = []") auto
qed

lemma rule_outcomes:
  "\<exists>c1 c2 c3 c4 c5 c6.
     checkFromReplyToDomainMismatch env e = Inr c1
     \<and> checkFromReturnPathDomainMismatch env e = Inr c2
     \<and> checkMissingSPF env e = Inr c3
     \<and> checkSuspiciousFromDomain env e = Inr c4
     \<and> checkMultipleFromHeaders env e = Inr c5
     \<and> checkSuspiciousReceivedChain env e = Inr c6"
  using checkFromReplyToDomainMismatch_total checkFromReturnPathDomainMismatch_total
    checkMissingSPF_total checkSuspiciousFromDomain_total checkMultipleFromHeaders_total
    checkSuspiciousReceivedChain_total by metis

lemma triggeredWeight_range: "0 \<le> w \<Longrightarrow> 0 \<le> triggeredWeight w c \<and> triggeredWeight w c \<le> w"
  by (simp add: triggeredWeight_def)

lemma findingWeight_range: "0 \<le> w \<Longrightarrow> 0 \<le> findingWeight w f \<and> findingWeight w f \<le> w"
  by (simp add: findingWeight_def)

lemma Analyze_score_range:
  "\<exists>r. Analyze NewSpoofDetector env e = Inr r \<and> 0 \<le> Score r \<and> Score r \<le> 27"
proof -
  obtain c1 c2 c3 c4 c5 c6 where c:
    "checkFromReplyToDomainMismatch env e = Inr c1"
    "checkFromReturnPathDomainMismatch env e = Inr c2"
    "checkMissingSPF env e = Inr c3"
    "checkSuspiciousFromDomain env e = Inr c4"
    "checkMultipleFromHeaders env e = Inr c5"
    "checkSuspiciousReceivedChain env e = Inr c6"
    using rule_outcomes by blast
  have w: "0 \<le> triggeredWeight 3 c1 \<and> triggeredWeight 3 c1 \<le> 3"
    "0 \<le> triggeredWeight 3 c2 \<and> triggeredWeight 3 c2 \<le> 3"
    "0 \<le> triggeredWeight 2 c3 \<and> triggeredWeight 2 c3 \<le> 2"
    "0 \<le> triggeredWeight 4 c4 \<and> triggeredWeight 4 c4 \<le> 4"
    "0 \<le> triggeredWeight 5 c5 \<and> triggeredWeight 5 c5 \<le> 5"
    "0 \<le> triggeredWeight 2 c6 \<and> triggeredWeight 2 c6 \<le> 2"
    by (simp_all add: triggeredWeight_range)
  from resolvable_cases [of e] show ?thesis
  proof
    assume "From e = None \<or> GetDomain (From e) = Inr []"
    from Analyze_unresolvable [OF c this] w show ?thesis by simp
  next
    assume "\<exists>a D k. From e = Some a \<and> GetDomain (Some a) = Inr D \<and> D \<noteq> []
              \<and> checkDKIM e D = Inr k"
    then obtain a D k where d: "From e = Some a" "GetDomain (Some a) = Inr D" "D \<noteq> []"
      "checkDKIM e D = Inr k" by blast
    have f: "0 \<le> findingWeight 3 (checkSPF env e D) \<and> findingWeight 3 (checkSPF env e D) \<le> 3"
      "0 \<le> findingWeight 3 k \<and> findingWeight 3 k \<le> 3"
      "0 \<le> findingWeight 2 (checkDMARC env e D) \<and> findingWeight 2 (checkDMARC env e D) \<le> 2"
      by (simp_all add: findingWeight_range)
    from Analyze_resolvable [OF c d] w f show ?thesis by simp
  qed
qed

section \<open>Analyze on the concrete emails\<close>

lemma cleanEmail_result:
  "Analyze NewSpoofDetector exampleRuntime cleanEmail =
     Inr \<lparr>IsSpoofed = False, Reasons = [], Score = 0\<rparr>"
  by code_simp

lemma lookalikeEmail_result:
  "Analyze NewSpoofDetector exampleRuntime lookalikeEmail =
     Inr \<lparr>IsSpoofed = False,
          Reasons = [''From domain (mail-gmail.com) looks similar to gmail.com''],
          Score = 4\<rparr>"
  by code_simp

lemma twoFromEmail_result:
  "Analyze NewSpoofDetector exampleRuntime twoFromEmail =
     Inr \<lparr>IsSpoofed = True, Reasons = [''Email contains multiple From headers''], Score = 5\<rparr>"
  by code_simp

lemma failedLookupEmail_result:
  "Analyze NewSpoofDetector exampleRuntime failedLookupEmail =
     Inr \<lparr>IsSpoofed = True,
          Reasons = [''SPF lookup failed for domain nodns.test'',
                     ''Email doesn't have a DKIM signature'',
                     ''DMARC lookup failed for domain nodns.test''],
          Score = 8\<rparr>"
  by code_simp

lemma failedLookupEmail_domain:
  "GetDomain (Some \<lparr>Name = ''Bob'', Address = ''bob@nodns.test''\<rparr>) = Inr ''nodns.test''"
  by (simp add: GetDomain_def Split_def index_def)

lemma noisyEmail_result:
  "Analyze NewSpoofDetector exampleRuntime noisyEmail =
     Inr \<lparr>IsSpoofed = True,
          Reasons = [''From domain (paypal.com-secure) doesn't match Reply-To domain (evil.test)'',
                     ''From domain (paypal.com-secure) doesn't match Return-Path domain (bulk.test)'',
                     ''Domain paypal.com-secure doesn't have an SPF record'',
                     ''From domain (paypal.com-secure) looks similar to paypal.com'',
                     ''Email contains multiple From headers'',
                     ''Email doesn't have any Received headers'',
                     ''Domain paypal.com-secure doesn't have an SPF record'',
                     ''Email doesn't have a DKIM signature'',
                     ''DMARC lookup failed for domain paypal.com-secure''],
          Score = 27\<rparr>"
  by code_simp

lemma noisyEmail_domain:
  "GetDomain (Some \<lparr>Name = ''PayPal'', Address = ''service@paypal.com-secure''\<rparr>)
     = Inr ''paypal.com-secure''"
  by (simp add: GetDomain_def Split_def index_def)

lemma domainlessEmail_result:
  "Analyze NewSpoofDetector exampleRuntime domainlessEmail =
     Inr \<lparr>IsSpoofed = True,
          Reasons = [''Email contains multiple From headers'',
                     ''Email doesn't have any Received headers''],
          Score = 7\<rparr>"
  by code_simp

lemma laterSignatureEmail_result:
  "Analyze NewSpoofDetector exampleRuntime laterSignatureEmail =
     Inr \<lparr>IsSpoofed = False,
          Reasons = [''DKIM signature domain doesn't match From domain''],
          Score = 3\<rparr>"
  by code_simp

lemma cleanEmail_domain:
  "GetDomain (Some \<lparr>Name = ''Alice'', Address = ''alice@example.com''\<rparr>) = Inr ''example.com''"
  by (simp add: GetDomain_def Split_def index_def)

lemma twoRecordsEmail_result:
  "Analyze NewSpoofDetector exampleRuntime twoRecordsEmail =
     Inr \<lparr>IsSpoofed = False,
          Reasons = [''Domain two-records.test has a permissive SPF policy''],
          Score = 3\<rparr>"
  by code_simp

lemma noReceivedEmail_result:
  "Analyze NewSpoofDetector exampleRuntime noReceivedEmail =
     Inr \<lparr>IsSpoofed = False, Reasons = [''Email doesn't have any Received headers''],
          Score = 2\<rparr>"
  by code_simp

section \<open>The verdict\<close>

text \<open>
  C1: for every email, \<open>Analyze\<close> returns a result, and in it \<open>IsSpoofed\<close> holds
  exactly when the score is at least 5; so a score of 4 is not spoofed and a score of 5
  is.
\<close>

theorem Analyze_verdict_threshold:
  "\<exists>r. Analyze NewSpoofDetector env e = Inr r
       \<and> (IsSpoofed r \<longleftrightarrow> 5 \<le> Score r)
       \<and> (Score r = 4 \<longrightarrow> \<not> IsSpoofed r)
       \<and> (Score r = 5 \<longrightarrow> IsSpoofed r)"
proof -
  obtain c1 c2 c3 c4 c5 c6 where c:
    "checkFromReplyToDomainMismatch env e = Inr c1"
    "checkFromReturnPathDomainMismatch env e = Inr c2"
    "checkMissingSPF env e = Inr c3"
    "checkSuspiciousFromDomain env e = Inr c4"
    "checkMultipleFromHeaders env e = Inr c5"
    "checkSuspiciousReceivedChain env e = Inr c6"
    using rule_outcomes by blast
  from resolvable_cases [of e] show ?thesis
  proof
    assume "From e = None \<or> GetDomain (From e) = Inr []"
    from Analyze_unresolvable [OF c this] show ?thesis by simp
  next
    assume "\<exists>a D k. From e = Some a \<and> GetDomain (Some a) = Inr D \<and> D \<noteq> []
              \<and> checkDKIM e D = Inr k"
    then obtain a D k where "From e = Some a" "GetDomain (Some a) = Inr D" "D \<noteq> []"
      "checkDKIM e D = Inr k" by blast
    from Analyze_resolvable [OF c this] show ?thesis by simp
  qed
qed

text \<open>Both sides of the boundary are reached: an email that scores 4 and one that scores 5.\<close>

theorem Analyze_verdict_threshold_witness:
  "(\<exists>r. Analyze NewSpoofDetector exampleRuntime lookalikeEmail = Inr r
        \<and> Score r = 4 \<and> \<not> IsSpoofed r)
   \<and> (\<exists>r. Analyze NewSpoofDetector exampleRuntime twoFromEmail = Inr r
        \<and> Score r = 5 \<and> IsSpoofed r)"
  using Analyze_verdict_threshold [of exampleRuntime lookalikeEmail]
    Analyze_verdict_threshold [of exampleRuntime twoFromEmail]
  by (simp add: lookalikeEmail_result twoFromEmail_result)

section \<open>The lookalike test\<close>

text \<open>
  C2 as claimed: \<open>isSimilarDomain\<close> accepts the candidate \<open>paypal-secure.com\<close> for the
  reference \<open>paypal.com\<close>. It does not: the candidate does not contain \<open>paypalcom\<close>
  and is none of \<open>paypal-com\<close>, \<open>paypalcom\<close>, \<open>mail-paypal.com\<close>,
  \<open>paypal.com-secure\<close>, \<open>paypal.corn\<close>.
\<close>

theorem isSimilarDomain_paypal_secure_counterexample:
  "isSimilarDomain ''paypal-secure.com'' ''paypal.com'' = False"
  by (simp add: isSimilarDomain_def)

text \<open>
  C2 (amended): the transform appends \<open>-secure\<close> to the whole reference, top-level
  domain included. So every reference followed by \<open>-secure\<close> is a lookalike of it,
  \<open>paypal.com-secure\<close> is a lookalike of \<open>paypal.com\<close>, and \<open>paypal-secure.com\<close>
  is not.
\<close>

theorem isSimilarDomain_secure_suffix:
  "isSimilarDomain (reference @ ''-secure'') reference
   \<and> isSimilarDomain ''paypal.com-secure'' ''paypal.com''
   \<and> \<not> isSimilarDomain ''paypal-secure.com'' ''paypal.com''"
  by (simp add: isSimilarDomain_def)

section \<open>The domain of an address\<close>

text \<open>
  C5: \<open>GetDomain\<close> never panics, and it returns the empty string for a nil address and
  for an address whose split on \<open>@\<close> has not exactly two parts, that is, whose number
  of \<open>@\<close> is not one.
\<close>

theorem GetDomain_fails_closed:
  "(\<exists>s. GetDomain address = Inr s)
   \<and> (address = None \<longrightarrow> GetDomain address = Inr [])
   \<and> (\<forall>a. address = Some a \<and> length (Split (Address a) CHR ''@'') \<noteq> 2
          \<longrightarrow> GetDomain address = Inr [])
   \<and> (\<forall>a. address = Some a \<and> count_list (Address a) CHR ''@'' \<noteq> 1
          \<longrightarrow> GetDomain address = Inr [])"
  using GetDomain_total [of address]
  by (auto simp add: GetDomain_def Split_length)

text \<open>A nil address, an address without \<open>@\<close> and an address with two.\<close>

theorem GetDomain_fails_closed_witness:
  "GetDomain None = Inr []
   \<and> count_list ''alice.example.com'' CHR ''@'' = 0
   \<and> GetDomain (Some \<lparr>Name = [], Address = ''alice.example.com''\<rparr>) = Inr []
   \<and> count_list ''alice@example@com'' CHR ''@'' = 2
   \<and> length (Split ''alice@example@com'' CHR ''@'') = 3
   \<and> GetDomain (Some \<lparr>Name = [], Address = ''alice@example@com''\<rparr>) = Inr []"
  using GetDomain_fails_closed [of None]
    GetDomain_fails_closed [of "Some \<lparr>Name = [], Address = ''alice.example.com''\<rparr>"]
    GetDomain_fails_closed [of "Some \<lparr>Name = [], Address = ''alice@example@com''\<rparr>"]
  by (simp add: Split_def)

section \<open>The SPF check\<close>

text \<open>
  C3: when the lookup succeeds and \<open>spfRecord\<close> is the first TXT record with the prefix
  \<open>v=spf1\<close>, a record that contains both \<open>-all\<close> and \<open>~all\<close> gives no finding, as
  \<open>-all\<close> alone does; the qualifiers are tried in the order \<open>-all\<close>, \<open>~all\<close>,
  \<open>?all\<close>, none of them, and the first that the record contains decides the outcome.
\<close>

theorem checkSPF_qualifier_precedence:
  assumes "LookupTXT env domain = Some (before @ spfRecord # after)"
    and "\<forall>r \<in> set before. \<not> HasPrefix r ''v=spf1''"
    and "HasPrefix spfRecord ''v=spf1''"
  shows "(Contains spfRecord ''-all'' \<and> Contains spfRecord ''~all''
            \<longrightarrow> checkSPF env e domain = [])
       \<and> (Contains spfRecord ''-all'' \<longrightarrow> checkSPF env e domain = [])
       \<and> (\<not> Contains spfRecord ''-all'' \<and> Contains spfRecord ''~all''
            \<longrightarrow> checkSPF env e domain = [])
       \<and> (\<not> Contains spfRecord ''-all'' \<and> \<not> Contains spfRecord ''~all''
            \<and> Contains spfRecord ''?all''
            \<longrightarrow> checkSPF env e domain = ''Domain '' @ domain @ '' has a neutral SPF policy'')
       \<and> (\<not> Contains spfRecord ''-all'' \<and> \<not> Contains spfRecord ''~all''
            \<and> \<not> Contains spfRecord ''?all''
            \<longrightarrow> checkSPF env e domain = ''Domain '' @ domain @ '' has a permissive SPF policy'')"
proof -
  have sel: "firstWithPrefix (before @ spfRecord # after) ''v=spf1'' = spfRecord"
    using assms(2,3) by (rule firstWithPrefix_selects)
  have ne: "spfRecord \<noteq> []"
    using assms(3) by (rule HasPrefix_nonempty) simp
  show ?thesis
    by (simp add: checkSPF_def assms(1) sel ne)
qed

text \<open>
  A record with both qualifiers behind an unrelated TXT record, and one record for each
  of the other three outcomes.
\<close>

theorem checkSPF_qualifier_precedence_witness:
  "LookupTXT exampleRuntime ''example.com''
     = Some ([''google-site-verification=abc''] @ ''v=spf1 mx ~all -all'' # [])
   \<and> \<not> HasPrefix ''google-site-verification=abc'' ''v=spf1''
   \<and> HasPrefix ''v=spf1 mx ~all -all'' ''v=spf1''
   \<and> Contains ''v=spf1 mx ~all -all'' ''-all'' \<and> Contains ''v=spf1 mx ~all -all'' ''~all''
   \<and> checkSPF exampleRuntime cleanEmail ''example.com'' = []
   \<and> \<not> Contains ''v=spf1 a ~all'' ''-all'' \<and> Contains ''v=spf1 a ~all'' ''~all''
   \<and> checkSPF exampleRuntime cleanEmail ''soft.test'' = []
   \<and> \<not> Contains ''v=spf1 a ?all'' ''-all'' \<and> \<not> Contains ''v=spf1 a ?all'' ''~all''
   \<and> Contains ''v=spf1 a ?all'' ''?all''
   \<and> checkSPF exampleRuntime cleanEmail ''neutral.test''
       = ''Domain neutral.test has a neutral SPF policy''
   \<and> \<not> Contains ''v=spf1 +all'' ''-all'' \<and> \<not> Contains ''v=spf1 +all'' ''~all''
   \<and> \<not> Contains ''v=spf1 +all'' ''?all''
   \<and> checkSPF exampleRuntime cleanEmail ''open.test''
       = ''Domain open.test has a permissive SPF policy''"
  using checkSPF_qualifier_precedence [of exampleRuntime "''example.com''"
      "[''google-site-verification=abc'']" "''v=spf1 mx ~all -all''" "[]" cleanEmail]
    checkSPF_qualifier_precedence [of exampleRuntime "''soft.test''"
      "[]" "''v=spf1 a ~all''" "[]" cleanEmail]
    checkSPF_qualifier_precedence [of exampleRuntime "''neutral.test''"
      "[]" "''v=spf1 a ?all''" "[]" cleanEmail]
    checkSPF_qualifier_precedence [of exampleRuntime "''open.test''"
      "[]" "''v=spf1 +all''" "[]" cleanEmail]
  by (simp add: exampleRuntime_def exampleDNS_def)

section \<open>A failed lookup: the rule and the check differ\<close>

text \<open>
  C4: when the TXT lookup for the From domain \<open>D\<close> fails, the missing-SPF rule is not
  triggered and adds 0 to the score, while the SPF check returns the non-empty finding
  \<open>SPF lookup failed for domain D\<close>, which adds 3 to the score and is among the reasons.
\<close>

theorem lookup_failure_asymmetry:
  assumes "From e = Some a" and "GetDomain (Some a) = Inr D" and "D \<noteq> []"
    and "LookupTXT env D = None"
  shows "checkMissingSPF env e = Inr (False, [])
       \<and> checkSPF env e D = ''SPF lookup failed for domain '' @ D
       \<and> checkSPF env e D \<noteq> []
       \<and> findingWeight 3 (checkSPF env e D) = 3
       \<and> (\<exists>c1 c2 c4 c5 c6 k r.
             checkFromReplyToDomainMismatch env e = Inr c1
             \<and> checkFromReturnPathDomainMismatch env e = Inr c2
             \<and> checkSuspiciousFromDomain env e = Inr c4
             \<and> checkMultipleFromHeaders env e = Inr c5
             \<and> checkSuspiciousReceivedChain env e = Inr c6
             \<and> checkDKIM e D = Inr k
             \<and> Analyze NewSpoofDetector env e = Inr r
             \<and> Score r = triggeredWeight 3 c1 + triggeredWeight 3 c2 + 0
                          + triggeredWeight 4 c4 + triggeredWeight 5 c5 + triggeredWeight 2 c6
                          + (3 + findingWeight 3 k + findingWeight 2 (checkDMARC env e D))
             \<and> Reasons r = (triggeredReason c1 @ triggeredReason c2
                            @ triggeredReason c4 @ triggeredReason c5 @ triggeredReason c6)
                           @ [''SPF lookup failed for domain '' @ D]
                           @ findingReason k @ findingReason (checkDMARC env e D))"
proof -
  have rule: "checkMissingSPF env e = Inr (False, [])"
    using assms by (simp add: checkMissingSPF_def)
  have spf: "checkSPF env e D = ''SPF lookup failed for domain '' @ D"
    using assms(4) by (simp add: checkSPF_def)
  obtain c1 c2 c3 c4 c5 c6 where c:
    "checkFromReplyToDomainMismatch env e = Inr c1"
    "checkFromReturnPathDomainMismatch env e = Inr c2"
    "checkMissingSPF env e = Inr c3"
    "checkSuspiciousFromDomain env e = Inr c4"
    "checkMultipleFromHeaders env e = Inr c5"
    "checkSuspiciousReceivedChain env e = Inr c6"
    using rule_outcomes by blast
  obtain k where k: "checkDKIM e D = Inr k"
    using checkDKIM_total by blast
  have c3: "c3 = (False, [])"
    using rule c(3) by simp
  have "Analyze NewSpoofDetector env e =
          Inr \<lparr>IsSpoofed = (5 \<le> triggeredWeight 3 c1 + triggeredWeight 3 c2
                              + triggeredWeight 2 c3 + triggeredWeight 4 c4
                              + triggeredWeight 5 c5 + triggeredWeight 2 c6
                              + (findingWeight 3 (checkSPF env e D) + findingWeight 3 k
                                 + findingWeight 2 (checkDMARC env e D))),
                Reasons = (triggeredReason c1 @ triggeredReason c2
                              @ triggeredReason c3 @ triggeredReason c4
                              @ triggeredReason c5 @ triggeredReason c6)
                          @ (findingReason (checkSPF env e D) @ findingReason k
                              @ findingReason (checkDMARC env e D)),
                Score = triggeredWeight 3 c1 + triggeredWeight 3 c2
                              + triggeredWeight 2 c3 + triggeredWeight 4 c4
                              + triggeredWeight 5 c5 + triggeredWeight 2 c6
                              + (findingWeight 3 (checkSPF env e D) + findingWeight 3 k
                                 + findingWeight 2 (checkDMARC env e D))\<rparr>"
    by (rule Analyze_resolvable [OF c assms(1-3) k])
  then have "\<exists>r. Analyze NewSpoofDetector env e = Inr r
             \<and> Score r = triggeredWeight 3 c1 + triggeredWeight 3 c2 + 0
                          + triggeredWeight 4 c4 + triggeredWeight 5 c5 + triggeredWeight 2 c6
                          + (3 + findingWeight 3 k + findingWeight 2 (checkDMARC env e D))
             \<and> Reasons r = (triggeredReason c1 @ triggeredReason c2
                            @ triggeredReason c4 @ triggeredReason c5 @ triggeredReason c6)
                           @ [''SPF lookup failed for domain '' @ D]
                           @ findingReason k @ findingReason (checkDMARC env e D)"
    by (simp add: c3 spf triggeredWeight_def triggeredReason_def findingWeight_def
        findingReason_def)
  with c k have "\<exists>c1 c2 c4 c5 c6 k r.
             checkFromReplyToDomainMismatch env e = Inr c1
             \<and> checkFromReturnPathDomainMismatch env e = Inr c2
             \<and> checkSuspiciousFromDomain env e = Inr c4
             \<and> checkMultipleFromHeaders env e = Inr c5
             \<and> checkSuspiciousReceivedChain env e = Inr c6
             \<and> checkDKIM e D = Inr k
             \<and> Analyze NewSpoofDetector env e = Inr r
             \<and> Score r = triggeredWeight 3 c1 + triggeredWeight 3 c2 + 0
                          + triggeredWeight 4 c4 + triggeredWeight 5 c5 + triggeredWeight 2 c6
                          + (3 + findingWeight 3 k + findingWeight 2 (checkDMARC env e D))
             \<and> Reasons r = (triggeredReason c1 @ triggeredReason c2
                            @ triggeredReason c4 @ triggeredReason c5 @ triggeredReason c6)
                           @ [''SPF lookup failed for domain '' @ D]
                           @ findingReason k @ findingReason (checkDMARC env e D)"
    by blast
  with rule spf show ?thesis
    by (simp add: triggeredWeight_def findingWeight_def)
qed

text \<open>The domain \<open>nodns.test\<close> has no answer in the example DNS.\<close>

theorem lookup_failure_asymmetry_witness:
  "From failedLookupEmail = Some \<lparr>Name = ''Bob'', Address = ''bob@nodns.test''\<rparr>
   \<and> GetDomain (Some \<lparr>Name = ''Bob'', Address = ''bob@nodns.test''\<rparr>) = Inr ''nodns.test''
   \<and> LookupTXT exampleRuntime ''nodns.test'' = None
   \<and> checkMissingSPF exampleRuntime failedLookupEmail = Inr (False, [])
   \<and> checkSPF exampleRuntime failedLookupEmail ''nodns.test''
       = ''SPF lookup failed for domain nodns.test''
   \<and> (\<exists>r. Analyze NewSpoofDetector exampleRuntime failedLookupEmail = Inr r \<and> Score r = 8
          \<and> ''SPF lookup failed for domain nodns.test'' \<in> set (Reasons r))"
proof -
  have 1: "From failedLookupEmail = Some \<lparr>Name = ''Bob'', Address = ''bob@nodns.test''\<rparr>"
    by (simp add: failedLookupEmail_def)
  have 2: "(''nodns.test'' :: string) \<noteq> []"
    by simp
  have 3: "LookupTXT exampleRuntime ''nodns.test'' = None"
    by (simp add: exampleRuntime_def exampleDNS_def)
  show ?thesis
    using lookup_failure_asymmetry [OF 1 failedLookupEmail_domain 2 3] 1 3
    by (simp add: failedLookupEmail_domain failedLookupEmail_result)
qed

section \<open>The order of the reasons\<close>

text \<open>
  C6: the reasons of the result are the reasons of the triggered rules in the order of
  registration (From/Reply-To mismatch, From/Return-Path mismatch, missing SPF, suspicious
  From domain, multiple From headers, suspicious Received chain), followed by the SPF,
  the DKIM and the DMARC finding, each of them there exactly when it is not empty; no
  finding follows when the From domain cannot be resolved.
\<close>

theorem Analyze_reasons_order:
  "\<exists>c1 c2 c3 c4 c5 c6 r auth.
     checkFromReplyToDomainMismatch env e = Inr c1
     \<and> checkFromReturnPathDomainMismatch env e = Inr c2
     \<and> checkMissingSPF env e = Inr c3
     \<and> checkSuspiciousFromDomain env e = Inr c4
     \<and> checkMultipleFromHeaders env e = Inr c5
     \<and> checkSuspiciousReceivedChain env e = Inr c6
     \<and> Analyze NewSpoofDetector env e = Inr r
     \<and> Reasons r = triggeredReason c1 @ triggeredReason c2 @ triggeredReason c3
                     @ triggeredReason c4 @ triggeredReason c5 @ triggeredReason c6 @ auth
     \<and> (From e = None \<or> GetDomain (From e) = Inr [] \<longrightarrow> auth = [])
     \<and> (\<forall>a D. From e = Some a \<and> GetDomain (Some a) = Inr D \<and> D \<noteq> []
            \<longrightarrow> (\<exists>k. checkDKIM e D = Inr k
                   \<and> auth = findingReason (checkSPF env e D) @ findingReason k
                            @ findingReason (checkDMARC env e D)))"
proof -
  obtain c1 c2 c3 c4 c5 c6 where c:
    "checkFromReplyToDomainMismatch env e = Inr c1"
    "checkFromReturnPathDomainMismatch env e = Inr c2"
    "checkMissingSPF env e = Inr c3"
    "checkSuspiciousFromDomain env e = Inr c4"
    "checkMultipleFromHeaders env e = Inr c5"
    "checkSuspiciousReceivedChain env e = Inr c6"
    using rule_outcomes by blast
  let ?rules = "triggeredReason c1 @ triggeredReason c2 @ triggeredReason c3
                @ triggeredReason c4 @ triggeredReason c5 @ triggeredReason c6"
  from resolvable_cases [of e] show ?thesis
  proof
    assume u: "From e = None \<or> GetDomain (From e) = Inr []"
    obtain r where r: "Analyze NewSpoofDetector env e = Inr r" "Reasons r = ?rules"
      using Analyze_unresolvable [OF c u] by simp
    have 1: "Reasons r = triggeredReason c1 @ triggeredReason c2 @ triggeredReason c3
                @ triggeredReason c4 @ triggeredReason c5 @ triggeredReason c6 @ []"
      using r(2) by simp
    have 2: "\<forall>a D. From e = Some a \<and> GetDomain (Some a) = Inr D \<and> D \<noteq> []
            \<longrightarrow> (\<exists>k. checkDKIM e D = Inr k
                   \<and> [] = findingReason (checkSPF env e D) @ findingReason k
                            @ findingReason (checkDMARC env e D))"
      using u by auto
    show ?thesis
      using c r(1) 1 2 by blast
  next
    assume "\<exists>a D k. From e = Some a \<and> GetDomain (Some a) = Inr D \<and> D \<noteq> []
              \<and> checkDKIM e D = Inr k"
    then obtain a D k where d: "From e = Some a" "GetDomain (Some a) = Inr D" "D \<noteq> []"
      "checkDKIM e D = Inr k" by blast
    let ?auth = "findingReason (checkSPF env e D) @ findingReason k
                 @ findingReason (checkDMARC env e D)"
    obtain r where r: "Analyze NewSpoofDetector env e = Inr r" "Reasons r = ?rules @ ?auth"
      using Analyze_resolvable [OF c d] by simp
    have 1: "Reasons r = triggeredReason c1 @ triggeredReason c2 @ triggeredReason c3
                @ triggeredReason c4 @ triggeredReason c5 @ triggeredReason c6 @ ?auth"
      using r(2) by simp
    have 2: "From e = None \<or> GetDomain (From e) = Inr [] \<longrightarrow> ?auth = []"
      using d by auto
    have 3: "\<forall>a' D'. From e = Some a' \<and> GetDomain (Some a') = Inr D' \<and> D' \<noteq> []
            \<longrightarrow> (\<exists>k. checkDKIM e D' = Inr k
                   \<and> ?auth = findingReason (checkSPF env e D') @ findingReason k
                            @ findingReason (checkDMARC env e D'))"
      using d by auto
    show ?thesis
      using c r(1) 1 2 3 by blast
  qed
qed

text \<open>
  An email that triggers all six rules and all three findings, and one without a From
  address.
\<close>

theorem Analyze_reasons_order_witness:
  "From noisyEmail = Some \<lparr>Name = ''PayPal'', Address = ''service@paypal.com-secure''\<rparr>
   \<and> GetDomain (From noisyEmail) = Inr ''paypal.com-secure''
   \<and> (\<exists>r. Analyze NewSpoofDetector exampleRuntime noisyEmail = Inr r
         \<and> Reasons r =
             [''From domain (paypal.com-secure) doesn't match Reply-To domain (evil.test)'',
              ''From domain (paypal.com-secure) doesn't match Return-Path domain (bulk.test)'',
              ''Domain paypal.com-secure doesn't have an SPF record'',
              ''From domain (paypal.com-secure) looks similar to paypal.com'',
              ''Email contains multiple From headers'',
              ''Email doesn't have any Received headers'',
              ''Domain paypal.com-secure doesn't have an SPF record'',
              ''Email doesn't have a DKIM signature'',
              ''DMARC lookup failed for domain paypal.com-secure''])
   \<and> From twoFromEmail = None
   \<and> (\<exists>r. Analyze NewSpoofDetector exampleRuntime twoFromEmail = Inr r
         \<and> Reasons r = [''Email contains multiple From headers''])"
proof -
  have 1: "From noisyEmail = Some \<lparr>Name = ''PayPal'', Address = ''service@paypal.com-secure''\<rparr>"
    by (simp add: noisyEmail_def)
  have 2: "From twoFromEmail = None"
    by (simp add: twoFromEmail_def)
  show ?thesis
    using Analyze_reasons_order [of exampleRuntime noisyEmail]
      Analyze_reasons_order [of exampleRuntime twoFromEmail] 1 2
    by (simp add: noisyEmail_domain noisyEmail_result twoFromEmail_result)
qed

section \<open>Emails without a From domain\<close>

text \<open>
  C7: when the From address is nil or its domain is empty, none of the four rules that
  depend on the domain triggers, the SPF, DKIM and DMARC block leaves the result as it
  is, and the score and the reasons come from the multiple-From rule and the Received
  rule alone. The condition on Reply-To is not needed.
\<close>

theorem no_From_domain_structural_only:
  assumes "From e = None \<or> GetDomain (From e) = Inr []"
  shows "checkFromReplyToDomainMismatch env e = Inr (False, [])
       \<and> checkFromReturnPathDomainMismatch env e = Inr (False, [])
       \<and> checkMissingSPF env e = Inr (False, [])
       \<and> checkSuspiciousFromDomain env e = Inr (False, [])
       \<and> (\<forall>result. applyAuth env e result = Inr result)
       \<and> (\<exists>c5 c6 r.
             checkMultipleFromHeaders env e = Inr c5
             \<and> checkSuspiciousReceivedChain env e = Inr c6
             \<and> Analyze NewSpoofDetector env e = Inr r
             \<and> Score r = triggeredWeight 5 c5 + triggeredWeight 2 c6
             \<and> Reasons r = triggeredReason c5 @ triggeredReason c6)"
proof -
  have dom: "GetDomain (From e) = Inr []"
    using assms by (auto simp add: GetDomain_def)
  have 1: "checkFromReplyToDomainMismatch env e = Inr (False, [])"
  proof -
    obtain t where "GetDomain (ReplyTo e) = Inr t"
      using GetDomain_total by blast
    with dom show ?thesis
      by (simp add: checkFromReplyToDomainMismatch_def)
  qed
  have 2: "checkFromReturnPathDomainMismatch env e = Inr (False, [])"
  proof (cases "length (Split (ReturnPath e) CHR ''@'') = 2")
    case True
    then have "index (Split (ReturnPath e) CHR ''@'') 1 = Inr (Split (ReturnPath e) CHR ''@'' ! 1)"
      by (simp add: index_in_range)
    with dom True show ?thesis
      by (simp add: checkFromReturnPathDomainMismatch_def Let_def)
  next
    case False
    with dom show ?thesis
      by (simp add: checkFromReturnPathDomainMismatch_def Let_def)
  qed
  have 3: "checkMissingSPF env e = Inr (False, [])"
    using dom by (simp add: checkMissingSPF_def)
  have 4: "checkSuspiciousFromDomain env e = Inr (False, [])"
    using dom by (simp add: checkSuspiciousFromDomain_def)
  have auth: "\<forall>result. applyAuth env e result = Inr result"
    using assms by (simp add: applyAuth_unresolvable)
  obtain c5 c6 where c:
    "checkMultipleFromHeaders env e = Inr c5"
    "checkSuspiciousReceivedChain env e = Inr c6"
    using checkMultipleFromHeaders_total checkSuspiciousReceivedChain_total by blast
  obtain r where r: "Analyze NewSpoofDetector env e = Inr r"
    "Score r = triggeredWeight 5 c5 + triggeredWeight 2 c6"
    "Reasons r = triggeredReason c5 @ triggeredReason c6"
    using Analyze_unresolvable [OF 1 2 3 4 c assms]
    by (simp add: triggeredWeight_def triggeredReason_def)
  from c r have "\<exists>c5 c6 r.
             checkMultipleFromHeaders env e = Inr c5
             \<and> checkSuspiciousReceivedChain env e = Inr c6
             \<and> Analyze NewSpoofDetector env e = Inr r
             \<and> Score r = triggeredWeight 5 c5 + triggeredWeight 2 c6
             \<and> Reasons r = triggeredReason c5 @ triggeredReason c6"
    by blast
  with 1 2 3 4 auth show ?thesis by simp
qed

text \<open>An email without a From address, and one whose From address has no \<open>@\<close>.\<close>

theorem no_From_domain_structural_only_witness:
  "From twoFromEmail = None
   \<and> (\<exists>r. Analyze NewSpoofDetector exampleRuntime twoFromEmail = Inr r
          \<and> Score r = 5 \<and> Reasons r = [''Email contains multiple From headers''])
   \<and> GetDomain (From domainlessEmail) = Inr []
   \<and> checkFromReplyToDomainMismatch exampleRuntime domainlessEmail = Inr (False, [])
   \<and> checkFromReturnPathDomainMismatch exampleRuntime domainlessEmail = Inr (False, [])
   \<and> checkMissingSPF exampleRuntime domainlessEmail = Inr (False, [])
   \<and> checkSuspiciousFromDomain exampleRuntime domainlessEmail = Inr (False, [])
   \<and> (\<exists>r. Analyze NewSpoofDetector exampleRuntime domainlessEmail = Inr r
          \<and> Score r = 7
          \<and> Reasons r = [''Email contains multiple From headers'',
                          ''Email doesn't have any Received headers''])"
proof -
  have 1: "From twoFromEmail = None \<or> GetDomain (From twoFromEmail) = Inr []"
    by (simp add: twoFromEmail_def)
  have 2: "GetDomain (From domainlessEmail) = Inr []"
    by (simp add: domainlessEmail_def GetDomain_def Split_def)
  then have 3: "From domainlessEmail = None \<or> GetDomain (From domainlessEmail) = Inr []"
    by simp
  show ?thesis
    using no_From_domain_structural_only [OF 1, of exampleRuntime]
      no_From_domain_structural_only [OF 3, of exampleRuntime] 2
    by (simp add: twoFromEmail_result domainlessEmail_result) (simp add: twoFromEmail_def)
qed

section \<open>The score and the order of the rules\<close>

lemma applyRules_score:
  assumes "\<forall>rule \<in> set rs. \<exists>c. CheckFunc rule env e = Inr c"
  shows "\<exists>r'. applyRules env e rs r = Inr r'
           \<and> Score r' = Score r
                + sum_list (map (\<lambda>rule. triggeredWeight (Weight rule)
                                          (projr (CheckFunc rule env e))) rs)"
  using assms
proof (induction rs arbitrary: r)
  case Nil
  then show ?case by simp
next
  case (Cons rule rs)
  then obtain c where c: "CheckFunc rule env e = Inr c"
    by auto
  let ?r1 = "if fst c then r\<lparr>Score := Score r + Weight rule, Reasons := Reasons r @ [snd c]\<rparr>
             else r"
  have step: "applyRules env e (rule # rs) r = applyRules env e rs ?r1"
    using c by (cases c) simp
  have sc: "Score ?r1 = Score r + triggeredWeight (Weight rule) c"
    by (simp add: triggeredWeight_def)
  from Cons.IH [of ?r1] Cons.prems obtain r' where
    "applyRules env e rs ?r1 = Inr r'"
    "Score r' = Score ?r1
                + sum_list (map (\<lambda>rule. triggeredWeight (Weight rule)
                                          (projr (CheckFunc rule env e))) rs)"
    by auto
  with step sc c show ?case
    by simp
qed

lemma Rules_total: "\<forall>rule \<in> set Rules. \<exists>c. CheckFunc rule env e = Inr c"
  by (simp add: Rules_def checkFromReplyToDomainMismatch_total
      checkFromReturnPathDomainMismatch_total checkMissingSPF_total
      checkSuspiciousFromDomain_total checkMultipleFromHeaders_total
      checkSuspiciousReceivedChain_total del: split_paired_Ex)

lemma applyAuth_shift: "\<exists>d. \<forall>r. \<exists>r'. applyAuth env e r = Inr r' \<and> Score r' = Score r + d"
  using resolvable_cases [of e]
proof
  assume "From e = None \<or> GetDomain (From e) = Inr []"
  then have "\<forall>r. \<exists>r'. applyAuth env e r = Inr r' \<and> Score r' = Score r + 0"
    by (simp add: applyAuth_unresolvable)
  then show ?thesis ..
next
  assume "\<exists>a D k. From e = Some a \<and> GetDomain (Some a) = Inr D \<and> D \<noteq> []
            \<and> checkDKIM e D = Inr k"
  then obtain a D k where d: "From e = Some a" "GetDomain (Some a) = Inr D" "D \<noteq> []"
    "checkDKIM e D = Inr k" by blast
  have "\<forall>r. \<exists>r'. applyAuth env e r = Inr r'
          \<and> Score r' = Score r + (findingWeight 3 (checkSPF env e D) + findingWeight 3 k
                              + findingWeight 2 (checkDMARC env e D))"
    by (simp add: applyAuth_resolvable [OF d])
  then show ?thesis ..
qed

lemma Analyze_score:
  assumes "applyRules env e (rules d) \<lparr>IsSpoofed = False, Reasons = [], Score = 0\<rparr> = Inr r1"
    and "applyAuth env e r1 = Inr r2"
  shows "\<exists>r. Analyze d env e = Inr r \<and> Score r = Score r2"
  using assms by (simp add: Analyze_def)

lemma noisyEmail_reversed_result:
  "Analyze \<lparr>rules = rev Rules\<rparr> exampleRuntime noisyEmail =
     Inr \<lparr>IsSpoofed = True,
          Reasons = [''Email doesn't have any Received headers'',
                     ''Email contains multiple From headers'',
                     ''From domain (paypal.com-secure) looks similar to paypal.com'',
                     ''Domain paypal.com-secure doesn't have an SPF record'',
                     ''From domain (paypal.com-secure) doesn't match Return-Path domain (bulk.test)'',
                     ''From domain (paypal.com-secure) doesn't match Reply-To domain (evil.test)'',
                     ''Domain paypal.com-secure doesn't have an SPF record'',
                     ''Email doesn't have a DKIM signature'',
                     ''DMARC lookup failed for domain paypal.com-secure''],
          Score = 27\<rparr>"
  by code_simp

text \<open>
  C8: the score does not depend on the order in which the rules are evaluated: a
  detector whose rule list is any permutation of the six rules returns, for every
  email, a result with the score of the detector built by \<open>NewSpoofDetector\<close>.
\<close>

theorem score_independent_of_rule_order:
  assumes "mset rs = mset Rules"
  shows "\<exists>r r'. Analyze \<lparr>rules = rs\<rparr> env e = Inr r
            \<and> Analyze NewSpoofDetector env e = Inr r'
            \<and> Score r = Score r'"
proof -
  let ?w = "\<lambda>rule. triggeredWeight (Weight rule) (projr (CheckFunc rule env e))"
  let ?r0 = "\<lparr>IsSpoofed = False, Reasons = [], Score = 0\<rparr>"
  have "set rs = set Rules"
    using assms by (rule mset_eq_setD)
  then have total: "\<forall>rule \<in> set rs. \<exists>c. CheckFunc rule env e = Inr c"
    using Rules_total by simp
  have "sum_mset (image_mset ?w (mset rs)) = sum_mset (image_mset ?w (mset Rules))"
    using assms by simp
  then have sums: "sum_list (map ?w rs) = sum_list (map ?w Rules)"
    by (simp flip: sum_mset_sum_list)
  obtain p where p: "applyRules env e rs ?r0 = Inr p" "Score p = Score ?r0 + sum_list (map ?w rs)"
    using applyRules_score [OF total] by blast
  obtain q where q: "applyRules env e Rules ?r0 = Inr q"
    "Score q = Score ?r0 + sum_list (map ?w Rules)"
    using applyRules_score [OF Rules_total] by blast
  obtain d where d: "\<forall>r. \<exists>r'. applyAuth env e r = Inr r' \<and> Score r' = Score r + d"
    using applyAuth_shift by blast
  obtain p' where p': "applyAuth env e p = Inr p'" "Score p' = Score p + d"
    using d by blast
  obtain q' where q': "applyAuth env e q = Inr q'" "Score q' = Score q + d"
    using d by blast
  obtain r where r: "Analyze \<lparr>rules = rs\<rparr> env e = Inr r" "Score r = Score p'"
    using Analyze_score [of env e "\<lparr>rules = rs\<rparr>" p p'] p(1) p'(1) by auto
  obtain r' where r': "Analyze NewSpoofDetector env e = Inr r'" "Score r' = Score q'"
    using Analyze_score [of env e NewSpoofDetector q q'] q(1) q'(1)
    by (auto simp add: NewSpoofDetector_def)
  have "Score r = Score r'"
    using r(2) r'(2) p(2) q(2) p'(2) q'(2) sums by simp
  with r(1) r'(1) show ?thesis by blast
qed

text \<open>The six rules in reverse order: the same score, the reasons in another order.\<close>

theorem score_independent_of_rule_order_witness:
  "mset (rev Rules) = mset Rules
   \<and> (\<exists>r r'. Analyze \<lparr>rules = rev Rules\<rparr> exampleRuntime noisyEmail = Inr r
            \<and> Analyze NewSpoofDetector exampleRuntime noisyEmail = Inr r'
            \<and> Score r = 27 \<and> Score r' = 27 \<and> Reasons r \<noteq> Reasons r')"
proof -
  have 1: "mset (rev Rules) = mset Rules"
    by simp
  show ?thesis
    using score_independent_of_rule_order [OF 1, of exampleRuntime noisyEmail] 1
    by (simp add: noisyEmail_result noisyEmail_reversed_result)
qed

section \<open>The DKIM check\<close>

text \<open>
  C10: the DKIM check reads only the first value stored under \<open>DKIM-Signature\<close>. When
  that value does not contain the From domain, the finding is \<open>DKIM signature domain
  doesn't match From domain\<close> whatever the later values are, also when one of them
  contains the domain, and \<open>Analyze\<close> adds it with weight 3.
\<close>

theorem checkDKIM_reads_first_signature:
  assumes "From e = Some a" and "GetDomain (Some a) = Inr D" and "D \<noteq> []"
    and "Headers e ''DKIM-Signature'' = Some (first # later)"
    and "\<not> Contains first D"
  shows "GetHeaderValue e ''DKIM-Signature'' = Inr first
       \<and> checkDKIM e D = Inr ''DKIM signature domain doesn't match From domain''
       \<and> (\<exists>c1 c2 c3 c4 c5 c6 r.
             checkFromReplyToDomainMismatch env e = Inr c1
             \<and> checkFromReturnPathDomainMismatch env e = Inr c2
             \<and> checkMissingSPF env e = Inr c3
             \<and> checkSuspiciousFromDomain env e = Inr c4
             \<and> checkMultipleFromHeaders env e = Inr c5
             \<and> checkSuspiciousReceivedChain env e = Inr c6
             \<and> Analyze NewSpoofDetector env e = Inr r
             \<and> Score r = triggeredWeight 3 c1 + triggeredWeight 3 c2 + triggeredWeight 2 c3
                          + triggeredWeight 4 c4 + triggeredWeight 5 c5 + triggeredWeight 2 c6
                          + (findingWeight 3 (checkSPF env e D) + 3
                             + findingWeight 2 (checkDMARC env e D))
             \<and> Reasons r = (triggeredReason c1 @ triggeredReason c2 @ triggeredReason c3
                            @ triggeredReason c4 @ triggeredReason c5 @ triggeredReason c6)
                           @ findingReason (checkSPF env e D)
                           @ [''DKIM signature domain doesn't match From domain'']
                           @ findingReason (checkDMARC env e D))"
proof -
  have first: "GetHeaderValue e ''DKIM-Signature'' = Inr first"
    using assms(4) by (rule GetHeaderValue_first)
  have dkim: "checkDKIM e D = Inr ''DKIM signature domain doesn't match From domain''"
    using assms(4,5) first by (simp add: checkDKIM_def HasHeader_def)
  obtain c1 c2 c3 c4 c5 c6 where c:
    "checkFromReplyToDomainMismatch env e = Inr c1"
    "checkFromReturnPathDomainMismatch env e = Inr c2"
    "checkMissingSPF env e = Inr c3"
    "checkSuspiciousFromDomain env e = Inr c4"
    "checkMultipleFromHeaders env e = Inr c5"
    "checkSuspiciousReceivedChain env e = Inr c6"
    using rule_outcomes by blast
  obtain r where r: "Analyze NewSpoofDetector env e = Inr r"
    "Score r = triggeredWeight 3 c1 + triggeredWeight 3 c2 + triggeredWeight 2 c3
                          + triggeredWeight 4 c4 + triggeredWeight 5 c5 + triggeredWeight 2 c6
                          + (findingWeight 3 (checkSPF env e D) + 3
                             + findingWeight 2 (checkDMARC env e D))"
    "Reasons r = (triggeredReason c1 @ triggeredReason c2 @ triggeredReason c3
                            @ triggeredReason c4 @ triggeredReason c5 @ triggeredReason c6)
                           @ findingReason (checkSPF env e D)
                           @ [''DKIM signature domain doesn't match From domain'']
                           @ findingReason (checkDMARC env e D)"
    using Analyze_resolvable [OF c assms(1-3) dkim]
    by (simp add: findingWeight_def findingReason_def)
  from c r have "\<exists>c1 c2 c3 c4 c5 c6 r.
             checkFromReplyToDomainMismatch env e = Inr c1
             \<and> checkFromReturnPathDomainMismatch env e = Inr c2
             \<and> checkMissingSPF env e = Inr c3
             \<and> checkSuspiciousFromDomain env e = Inr c4
             \<and> checkMultipleFromHeaders env e = Inr c5
             \<and> checkSuspiciousReceivedChain env e = Inr c6
             \<and> Analyze NewSpoofDetector env e = Inr r
             \<and> Score r = triggeredWeight 3 c1 + triggeredWeight 3 c2 + triggeredWeight 2 c3
                          + triggeredWeight 4 c4 + triggeredWeight 5 c5 + triggeredWeight 2 c6
                          + (findingWeight 3 (checkSPF env e D) + 3
                             + findingWeight 2 (checkDMARC env e D))
             \<and> Reasons r = (triggeredReason c1 @ triggeredReason c2 @ triggeredReason c3
                            @ triggeredReason c4 @ triggeredReason c5 @ triggeredReason c6)
                           @ findingReason (checkSPF env e D)
                           @ [''DKIM signature domain doesn't match From domain'']
                           @ findingReason (checkDMARC env e D)"
    by blast
  with first dkim show ?thesis by blast
qed

text \<open>Two signatures, the second of which names the From domain.\<close>

theorem checkDKIM_reads_first_signature_witness:
  "From laterSignatureEmail = Some \<lparr>Name = ''Alice'', Address = ''alice@example.com''\<rparr>
   \<and> GetDomain (From laterSignatureEmail) = Inr ''example.com''
   \<and> Headers laterSignatureEmail ''DKIM-Signature''
       = Some [''v=1; d=relay.test; s=a'', ''v=1; d=example.com; s=b'']
   \<and> \<not> Contains ''v=1; d=relay.test; s=a'' ''example.com''
   \<and> Contains ''v=1; d=example.com; s=b'' ''example.com''
   \<and> checkDKIM laterSignatureEmail ''example.com''
       = Inr ''DKIM signature domain doesn't match From domain''
   \<and> (\<exists>r. Analyze NewSpoofDetector exampleRuntime laterSignatureEmail = Inr r
          \<and> Score r = 3
          \<and> Reasons r = [''DKIM signature domain doesn't match From domain''])"
proof -
  have 1: "From laterSignatureEmail = Some \<lparr>Name = ''Alice'', Address = ''alice@example.com''\<rparr>"
    by (simp add: laterSignatureEmail_def)
  have 2: "(''example.com'' :: string) \<noteq> []"
    by simp
  have 3: "Headers laterSignatureEmail ''DKIM-Signature''
             = Some (''v=1; d=relay.test; s=a'' # [''v=1; d=example.com; s=b''])"
    by (simp add: laterSignatureEmail_def)
  have 4: "\<not> Contains ''v=1; d=relay.test; s=a'' ''example.com''"
    by simp
  show ?thesis
    using checkDKIM_reads_first_signature [OF 1 cleanEmail_domain 2 3 4, of exampleRuntime]
      1 3 4
    by (simp add: cleanEmail_domain laterSignatureEmail_result)
qed

section \<open>The email on which every check passes\<close>

lemma similarLoop_none:
  "\<forall>d \<in> set ds. D = d \<or> \<not> isSimilarDomain D d \<Longrightarrow> similarLoop D ds = (False, [])"
  by (induction ds) auto

lemma firstPattern_none:
  "\<forall>p \<in> set ps. \<not> Contains h p \<Longrightarrow> firstPattern h ps = None"
  by (induction ps) auto

lemma receivedLoop_none:
  "\<forall>h \<in> set hs. \<forall>p \<in> set suspiciousPatterns. \<not> Contains (ToLower env h) p
   \<Longrightarrow> receivedLoop env hs = (False, [])"
  by (induction hs) (auto simp add: firstPattern_none)

text \<open>
  C9 as claimed: identical From, Reply-To and Return-Path domains, one From header,
  Received headers without a suspicious substring, a TXT record \<open>v=spf1 ... -all\<close>, a
  DKIM signature that contains the domain and a DMARC record with \<open>p=reject\<close> give the
  score 0. Three emails meet all of this and score more: the first is sent from
  \<open>mail-gmail.com\<close>, which the lookalike rule flags (score 4); the domain of the second
  publishes \<open>v=spf1 +all\<close> before \<open>v=spf1 -all\<close>, and the SPF check reads the first
  (score 3); the third has no Received header at all (score 2).
\<close>

theorem matching_email_counterexample:
  "From lookalikeEmail = Some \<lparr>Name = ''Alice'', Address = ''alice@mail-gmail.com''\<rparr>
   \<and> GetDomain (From lookalikeEmail) = Inr ''mail-gmail.com''
   \<and> GetDomain (ReplyTo lookalikeEmail) = Inr ''mail-gmail.com''
   \<and> Split (ReturnPath lookalikeEmail) CHR ''@'' = [''bounce'', ''mail-gmail.com'']
   \<and> GetAllHeaderValues lookalikeEmail ''From'' = [''Alice <alice@mail-gmail.com>'']
   \<and> GetAllHeaderValues lookalikeEmail ''Received'' = [''from mx.mail-gmail.com by mx.example.org'']
   \<and> firstPattern ''from mx.mail-gmail.com by mx.example.org'' suspiciousPatterns = None
   \<and> LookupTXT exampleRuntime ''mail-gmail.com'' = Some [''v=spf1 -all'']
   \<and> HasPrefix ''v=spf1 -all'' ''v=spf1'' \<and> Contains ''v=spf1 -all'' ''-all''
   \<and> GetAllHeaderValues lookalikeEmail ''DKIM-Signature'' = [''v=1; d=mail-gmail.com; s=sel'']
   \<and> Contains ''v=1; d=mail-gmail.com; s=sel'' ''mail-gmail.com''
   \<and> LookupTXT exampleRuntime ''_dmarc.mail-gmail.com'' = Some [''v=DMARC1; p=reject'']
   \<and> HasPrefix ''v=DMARC1; p=reject'' ''v=DMARC1'' \<and> Contains ''v=DMARC1; p=reject'' ''p=reject''
   \<and> Analyze NewSpoofDetector exampleRuntime lookalikeEmail
       = Inr \<lparr>IsSpoofed = False,
              Reasons = [''From domain (mail-gmail.com) looks similar to gmail.com''],
              Score = 4\<rparr>
   \<and> Analyze NewSpoofDetector exampleRuntime lookalikeEmail
       \<noteq> Inr \<lparr>IsSpoofed = False, Reasons = [], Score = 0\<rparr>
   \<and> GetDomain (From twoRecordsEmail) = Inr ''two-records.test''
   \<and> GetDomain (ReplyTo twoRecordsEmail) = Inr ''two-records.test''
   \<and> Split (ReturnPath twoRecordsEmail) CHR ''@'' = [''bounce'', ''two-records.test'']
   \<and> GetAllHeaderValues twoRecordsEmail ''From'' = [''Alice <alice@two-records.test>'']
   \<and> GetAllHeaderValues twoRecordsEmail ''Received''
       = [''from mx.two-records.test by mx.example.org'']
   \<and> firstPattern ''from mx.two-records.test by mx.example.org'' suspiciousPatterns = None
   \<and> LookupTXT exampleRuntime ''two-records.test'' = Some [''v=spf1 +all'', ''v=spf1 -all'']
   \<and> HasPrefix ''v=spf1 -all'' ''v=spf1'' \<and> Contains ''v=spf1 -all'' ''-all''
   \<and> GetAllHeaderValues twoRecordsEmail ''DKIM-Signature''
       = [''v=1; d=two-records.test; s=sel'']
   \<and> Contains ''v=1; d=two-records.test; s=sel'' ''two-records.test''
   \<and> LookupTXT exampleRuntime ''_dmarc.two-records.test'' = Some [''v=DMARC1; p=reject'']
   \<and> Analyze NewSpoofDetector exampleRuntime twoRecordsEmail
       = Inr \<lparr>IsSpoofed = False,
              Reasons = [''Domain two-records.test has a permissive SPF policy''],
              Score = 3\<rparr>
   \<and> GetDomain (From noReceivedEmail) = Inr ''example.com''
   \<and> GetDomain (ReplyTo noReceivedEmail) = Inr ''example.com''
   \<and> Split (ReturnPath noReceivedEmail) CHR ''@'' = [''bounce'', ''example.com'']
   \<and> GetAllHeaderValues noReceivedEmail ''From'' = [''Alice <alice@example.com>'']
   \<and> GetAllHeaderValues noReceivedEmail ''Received'' = []
   \<and> LookupTXT exampleRuntime ''example.com''
       = Some [''google-site-verification=abc'', ''v=spf1 mx ~all -all'']
   \<and> HasPrefix ''v=spf1 mx ~all -all'' ''v=spf1'' \<and> Contains ''v=spf1 mx ~all -all'' ''-all''
   \<and> GetAllHeaderValues noReceivedEmail ''DKIM-Signature'' = [''v=1; d=example.com; s=sel'']
   \<and> Contains ''v=1; d=example.com; s=sel'' ''example.com''
   \<and> LookupTXT exampleRuntime ''_dmarc.example.com'' = Some [''v=DMARC1; p=reject'']
   \<and> Analyze NewSpoofDetector exampleRuntime noReceivedEmail
       = Inr \<lparr>IsSpoofed = False, Reasons = [''Email doesn't have any Received headers''],
              Score = 2\<rparr>"
  unfolding lookalikeEmail_result twoRecordsEmail_result noReceivedEmail_result
  by (simp add: lookalikeEmail_def twoRecordsEmail_def noReceivedEmail_def GetDomain_def
      Split_def index_def GetAllHeaderValues_def exampleRuntime_def exampleDNS_def
      suspiciousPatterns_def)

text \<open>
  C9 (amended): the score is 0, the reasons are empty and the email is not spoofed when,
  in addition, the common domain \<open>D\<close> is not a lookalike of one of the twelve reference
  domains, there is at least one Received header and no Received header, in lower case,
  contains a suspicious substring, and the records that decide are the ones the checks
  read: the first TXT record with the prefix \<open>v=spf1\<close> contains \<open>-all\<close>, the first
  DKIM-Signature value contains \<open>D\<close>, and the first TXT record of \<open>_dmarc.D\<close> with the
  prefix \<open>v=DMARC1\<close> contains \<open>p=reject\<close>.
\<close>

theorem matching_email_scores_zero:
  assumes "From e = Some f" and "GetDomain (Some f) = Inr D" and "D \<noteq> []"
    and "ReplyTo e = Some rt" and "GetDomain (Some rt) = Inr D"
    and "Split (ReturnPath e) CHR ''@'' = [l, D]"
    and "mset (rangeOrder env) = mset commonDomains"
    and "\<forall>d \<in> set commonDomains. D = d \<or> \<not> isSimilarDomain D d"
    and "length (GetAllHeaderValues e ''From'') = 1"
    and "GetAllHeaderValues e ''Received'' \<noteq> []"
    and "\<forall>h \<in> set (GetAllHeaderValues e ''Received'').
           \<forall>p \<in> set suspiciousPatterns. \<not> Contains (ToLower env h) p"
    and "LookupTXT env D = Some (before @ spf # after)"
    and "\<forall>r \<in> set before. \<not> HasPrefix r ''v=spf1''"
    and "HasPrefix spf ''v=spf1''" and "Contains spf ''-all''"
    and "Headers e ''DKIM-Signature'' = Some (sig # sigs)" and "Contains sig D"
    and "LookupTXT env (''_dmarc.'' @ D) = Some (before' @ dmarc # after')"
    and "\<forall>r \<in> set before'. \<not> HasPrefix r ''v=DMARC1''"
    and "HasPrefix dmarc ''v=DMARC1''" and "Contains dmarc ''p=reject''"
  shows "Analyze NewSpoofDetector env e = Inr \<lparr>IsSpoofed = False, Reasons = [], Score = 0\<rparr>"
proof -
  have dom: "GetDomain (From e) = Inr D"
    using assms(1,2) by simp
  have 1: "checkFromReplyToDomainMismatch env e = Inr (False, [])"
    using assms(1,4,5) dom by (simp add: checkFromReplyToDomainMismatch_def)
  have "index [l, D] 1 = Inr D"
    by (simp add: index_def)
  then have 2: "checkFromReturnPathDomainMismatch env e = Inr (False, [])"
    using assms(6) dom by (simp add: checkFromReturnPathDomainMismatch_def Let_def)
  have "anySPF (before @ spf # after)"
    using assms(14) by (auto simp add: anySPF_iff)
  then have 3: "checkMissingSPF env e = Inr (False, [])"
    using assms(1,3,12) dom by (simp add: checkMissingSPF_def)
  have "set (rangeOrder env) = set commonDomains"
    using assms(7) by (rule mset_eq_setD)
  then have "similarLoop D (rangeOrder env) = (False, [])"
    using assms(8) by (simp add: similarLoop_none)
  then have 4: "checkSuspiciousFromDomain env e = Inr (False, [])"
    using assms(1,3) dom by (simp add: checkSuspiciousFromDomain_def)
  have 5: "checkMultipleFromHeaders env e = Inr (False, [])"
    using assms(9) by (simp add: checkMultipleFromHeaders_def)
  have "receivedLoop env (GetAllHeaderValues e ''Received'') = (False, [])"
    using assms(11) by (rule receivedLoop_none)
  then have 6: "checkSuspiciousReceivedChain env e = Inr (False, [])"
    using assms(10) by (simp add: checkSuspiciousReceivedChain_def)
  have "firstWithPrefix (before @ spf # after) ''v=spf1'' = spf"
    using assms(13,14) by (rule firstWithPrefix_selects)
  moreover have "spf \<noteq> []"
    using assms(14) by (rule HasPrefix_nonempty) simp
  ultimately have spf: "checkSPF env e D = []"
    using assms(12,15) by (simp add: checkSPF_def)
  have "GetHeaderValue e ''DKIM-Signature'' = Inr sig"
    using assms(16) by (rule GetHeaderValue_first)
  then have dkim: "checkDKIM e D = Inr []"
    using assms(16,17) by (simp add: checkDKIM_def HasHeader_def)
  have "firstWithPrefix (before' @ dmarc # after') ''v=DMARC1'' = dmarc"
    using assms(19,20) by (rule firstWithPrefix_selects)
  moreover have "dmarc \<noteq> []"
    using assms(20) by (rule HasPrefix_nonempty) simp
  ultimately have dmarc: "checkDMARC env e D = []"
    using assms(18,21) by (simp add: checkDMARC_def)
  show ?thesis
    using Analyze_resolvable [OF 1 2 3 4 5 6 assms(1-3) dkim]
    by (simp add: spf dmarc triggeredWeight_def triggeredReason_def findingWeight_def
        findingReason_def)
qed

text \<open>The clean email meets every condition.\<close>

theorem matching_email_scores_zero_witness:
  "From cleanEmail = Some \<lparr>Name = ''Alice'', Address = ''alice@example.com''\<rparr>
   \<and> GetDomain (From cleanEmail) = Inr ''example.com''
   \<and> GetDomain (ReplyTo cleanEmail) = Inr ''example.com''
   \<and> Split (ReturnPath cleanEmail) CHR ''@'' = [''bounce'', ''example.com'']
   \<and> mset (rangeOrder exampleRuntime) = mset commonDomains
   \<and> similarLoop ''example.com'' commonDomains = (False, [])
   \<and> GetAllHeaderValues cleanEmail ''From'' = [''Alice <alice@example.com>'']
   \<and> GetAllHeaderValues cleanEmail ''Received'' = [''from MX.example.com by mx.example.org'']
   \<and> LookupTXT exampleRuntime ''example.com''
       = Some ([''google-site-verification=abc''] @ ''v=spf1 mx ~all -all'' # [])
   \<and> Headers cleanEmail ''DKIM-Signature'' = Some [''v=1; d=example.com; s=sel'']
   \<and> LookupTXT exampleRuntime ''_dmarc.example.com'' = Some ([] @ ''v=DMARC1; p=reject'' # [])
   \<and> Analyze NewSpoofDetector exampleRuntime cleanEmail
       = Inr \<lparr>IsSpoofed = False, Reasons = [], Score = 0\<rparr>"
proof -
  have 1: "From cleanEmail = Some \<lparr>Name = ''Alice'', Address = ''alice@example.com''\<rparr>"
    by (simp add: cleanEmail_def)
  have 3: "(''example.com'' :: string) \<noteq> []"
    by simp
  have 4: "ReplyTo cleanEmail = Some \<lparr>Name = ''Alice'', Address = ''alice@example.com''\<rparr>"
    by (simp add: cleanEmail_def)
  have 6: "Split (ReturnPath cleanEmail) CHR ''@'' = [''bounce'', ''example.com'']"
    by (simp add: cleanEmail_def Split_def)
  have 7: "mset (rangeOrder exampleRuntime) = mset commonDomains"
    by (simp add: exampleRuntime_def)
  have 8: "\<forall>d \<in> set commonDomains. ''example.com'' = d \<or> \<not> isSimilarDomain ''example.com'' d"
    by (simp add: commonDomains_def isSimilarDomain_def)
  have hf: "GetAllHeaderValues cleanEmail ''From'' = [''Alice <alice@example.com>'']"
    by (simp add: cleanEmail_def GetAllHeaderValues_def)
  then have 9: "length (GetAllHeaderValues cleanEmail ''From'') = 1"
    by simp
  have hr: "GetAllHeaderValues cleanEmail ''Received'' = [''from MX.example.com by mx.example.org'']"
    by (simp add: cleanEmail_def GetAllHeaderValues_def)
  then have 10: "GetAllHeaderValues cleanEmail ''Received'' \<noteq> []"
    by simp
  have 11: "\<forall>h \<in> set (GetAllHeaderValues cleanEmail ''Received'').
           \<forall>p \<in> set suspiciousPatterns. \<not> Contains (ToLower exampleRuntime h) p"
    unfolding hr by (simp add: exampleRuntime_def asciiLower_def suspiciousPatterns_def)
  have 12: "LookupTXT exampleRuntime ''example.com''
       = Some ([''google-site-verification=abc''] @ ''v=spf1 mx ~all -all'' # [])"
    by (simp add: exampleRuntime_def exampleDNS_def)
  have 13: "\<forall>r \<in> set [''google-site-verification=abc'']. \<not> HasPrefix r ''v=spf1''"
    by simp
  have 14: "HasPrefix ''v=spf1 mx ~all -all'' ''v=spf1''"
    by simp
  have 15: "Contains ''v=spf1 mx ~all -all'' ''-all''"
    by simp
  have 16: "Headers cleanEmail ''DKIM-Signature'' = Some (''v=1; d=example.com; s=sel'' # [])"
    by (simp add: cleanEmail_def)
  have 17: "Contains ''v=1; d=example.com; s=sel'' ''example.com''"
    by simp
  have 18: "LookupTXT exampleRuntime (''_dmarc.'' @ ''example.com'')
       = Some ([] @ ''v=DMARC1; p=reject'' # [])"
    by (simp add: exampleRuntime_def exampleDNS_def)
  have 19: "\<forall>r \<in> set []. \<not> HasPrefix r ''v=DMARC1''"
    by simp
  have 20: "HasPrefix ''v=DMARC1; p=reject'' ''v=DMARC1''"
    by simp
  have 21: "Contains ''v=DMARC1; p=reject'' ''p=reject''"
    by simp
  have res: "Analyze NewSpoofDetector exampleRuntime cleanEmail
       = Inr \<lparr>IsSpoofed = False, Reasons = [], Score = 0\<rparr>"
    by (rule matching_email_scores_zero [OF 1 cleanEmail_domain 3 4 cleanEmail_domain 6 7 8 9
          10 11 12 13 14 15 16 17 18 19 20 21])
  have d1: "GetDomain (From cleanEmail) = Inr ''example.com''"
    using 1 cleanEmail_domain by simp
  have d2: "GetDomain (ReplyTo cleanEmail) = Inr ''example.com''"
    using 4 cleanEmail_domain by simp
  have dm: "LookupTXT exampleRuntime ''_dmarc.example.com'' = Some ([] @ ''v=DMARC1; p=reject'' # [])"
    using 18 by simp
  have dk: "Headers cleanEmail ''DKIM-Signature'' = Some [''v=1; d=example.com; s=sel'']"
    using 16 by simp
  have sl: "similarLoop ''example.com'' commonDomains = (False, [])"
    using 8 by (rule similarLoop_none)
  from 1 d1 d2 6 7 sl hf hr 12 dk dm res show ?thesis
    by blast
qed

end
